theory Spec2Isabelle
  imports Complex_Main
begin

section \<open>Strings and numbers of the runtime\<close>

text \<open>
  A JavaScript string is a sequence of UTF-16 code units; a code unit is modelled as a
  natural number and a string as a list of them. \<open>js\<close> embeds an ASCII literal.
  The rupee sign of the price rules is the single code unit U+20B9.

  Scores are JavaScript numbers. Every finite double is a rational, and the arithmetic of
  the evaluators is modelled exactly over \<open>rat\<close>, the factors 1.5, 1.2, 0.6 and 0.4
  as the fractions they are written as. The error of the floating-point operations is
  not modelled: it is far below a hundredth, and it can change the rounded score only
  where the exact value is a tie of half a hundredth, which takes a fractional limit.
  The not-a-number and infinite values (which a JSON request body cannot carry into a
  score) are outside the model.
\<close>

type_synonym cu = nat
type_synonym jsstring = "cu list"

definition js :: "string \<Rightarrow> jsstring" where
  "js s = map of_char s"

definition rupee :: cu where
  "rupee = 8377"

text \<open>\<open>Math.round\<close> rounds to the nearest integer, a half going up.\<close>

definition math_round :: "rat \<Rightarrow> int" where
  "math_round x = \<lfloor>x + 1 / 2\<rfloor>"

text \<open>The idiom \<open>Math.round(x * 100) / 100\<close> of both evaluators and of the submit route.\<close>

definition round2 :: "rat \<Rightarrow> rat" where
  "round2 x = of_int (math_round (x * 100)) / 100"

text \<open>\<open>Math.max(0, ...xs)\<close>.\<close>

definition math_max0 :: "rat list \<Rightarrow> rat" where
  "math_max0 xs = fold max xs 0"

subsection \<open>Character classes\<close>

definition isDigit :: "cu \<Rightarrow> bool" where
  "isDigit c \<longleftrightarrow> 48 \<le> c \<and> c \<le> 57"

text \<open>\<open>\w\<close>: the ASCII letters, the digits and the underscore.\<close>

definition isWordChar :: "cu \<Rightarrow> bool" where
  "isWordChar c \<longleftrightarrow>
     (48 \<le> c \<and> c \<le> 57) \<or> (65 \<le> c \<and> c \<le> 90) \<or> c = 95 \<or> (97 \<le> c \<and> c \<le> 122)"

text \<open>
  \<open>\s\<close>, which is also what \<open>trim\<close> strips: tab, line feed, vertical tab, form feed,
  carriage return, space, U+00A0, U+1680, U+2000 to U+200A, U+2028, U+2029, U+202F, U+205F,
  U+3000 and U+FEFF.
\<close>

definition isSpace :: "cu \<Rightarrow> bool" where
  "isSpace c \<longleftrightarrow>
     (9 \<le> c \<and> c \<le> 13) \<or> c = 32 \<or> c = 160 \<or> c = 5760 \<or> (8192 \<le> c \<and> c \<le> 8202) \<or>
     c = 8232 \<or> c = 8233 \<or> c = 8239 \<or> c = 8287 \<or> c = 12288 \<or> c = 65279"

text \<open>
  \<open>toLowerCase\<close> on the ASCII letters. The case table of the runtime for the other
  code units is not part of the repository: the model leaves them unchanged, which is what
  the runtime does to every character without a lower-case form, the rupee sign among them.
\<close>

definition lowerCu :: "cu \<Rightarrow> cu" where
  "lowerCu c = (if 65 \<le> c \<and> c \<le> 90 then c + 32 else c)"

definition toLowerCase :: "jsstring \<Rightarrow> jsstring" where
  "toLowerCase s = map lowerCu s"

text \<open>
  The canonical form under which a regular expression with the flag \<open>i\<close> (and without
  \<open>u\<close>) compares a code unit with an ASCII pattern character: upper case, and a
  non-ASCII code unit never becomes an ASCII one.
\<close>

definition canon :: "cu \<Rightarrow> cu" where
  "canon c = (if 97 \<le> c \<and> c \<le> 122 then c - 32 else c)"

subsection \<open>Substring search\<close>

fun startsWith :: "jsstring \<Rightarrow> jsstring \<Rightarrow> bool" where
  "startsWith s [] = True"
| "startsWith [] (w # ws) = False"
| "startsWith (c # cs) (w # ws) = (c = w \<and> startsWith cs ws)"

text \<open>\<open>String.prototype.includes\<close>.\<close>

fun includes_str :: "jsstring \<Rightarrow> jsstring \<Rightarrow> bool" where
  "includes_str [] w = startsWith [] w"
| "includes_str (c # cs) w = (startsWith (c # cs) w \<or> includes_str cs w)"

subsection \<open>Regular expressions\<close>

text \<open>
  The regular expressions of the source use literals, character classes, \<open>?\<close>, \<open>+\<close> on a
  class, alternation and \<open>\b\<close>. A matcher state is the code unit before the current
  position (none at the start of the input) and the rest of the input. \<open>ends r st\<close> lists
  the states in which a match of \<open>r\<close> begun at \<open>st\<close> can end, in the order in which the
  backtracking matcher of the runtime tries them (greedy first).
\<close>

datatype rx =
    Chr "cu \<Rightarrow> bool"
  | PlusC "cu \<Rightarrow> bool"
  | Opt rx
  | Seq rx rx
  | Alt rx rx
  | WordB
  | Eps

type_synonym mstate = "cu option \<times> jsstring"

fun plus_ends :: "(cu \<Rightarrow> bool) \<Rightarrow> jsstring \<Rightarrow> mstate list" where
  "plus_ends p [] = []"
| "plus_ends p (c # cs) = (if p c then plus_ends p cs @ [(Some c, cs)] else [])"

definition atWordBoundary :: "cu option \<Rightarrow> jsstring \<Rightarrow> bool" where
  "atWordBoundary prev s \<longleftrightarrow>
     (case prev of None \<Rightarrow> False | Some a \<Rightarrow> isWordChar a) \<noteq>
     (case s of [] \<Rightarrow> False | b # _ \<Rightarrow> isWordChar b)"

fun ends :: "rx \<Rightarrow> mstate \<Rightarrow> mstate list" where
  "ends (Chr p) (prev, s) = (case s of [] \<Rightarrow> [] | c # cs \<Rightarrow> if p c then [(Some c, cs)] else [])"
| "ends (PlusC p) (prev, s) = plus_ends p s"
| "ends (Opt r) st = ends r st @ [st]"
| "ends (Seq a b) st = concat (map (ends b) (ends a st))"
| "ends (Alt a b) st = ends a st @ ends b st"
| "ends WordB (prev, s) = (if atWordBoundary prev s then [(prev, s)] else [])"
| "ends Eps st = [st]"

text \<open>A sequence of parts, an alternation, a literal word, a literal word under flag \<open>i\<close>.\<close>

definition seqs :: "rx list \<Rightarrow> rx" where
  "seqs rs = foldr Seq rs Eps"

fun alts :: "rx \<Rightarrow> rx list \<Rightarrow> rx" where
  "alts r [] = r"
| "alts r (q # qs) = Alt r (alts q qs)"

definition lit :: "jsstring \<Rightarrow> rx" where
  "lit w = seqs (map (\<lambda>c. Chr (\<lambda>x. x = c)) w)"

definition liti :: "jsstring \<Rightarrow> rx" where
  "liti w = seqs (map (\<lambda>c. Chr (\<lambda>x. canon x = canon c)) w)"

text \<open>
  \<open>RegExp.prototype.test\<close> of a regular expression without the flag \<open>g\<close>: is there a
  match starting at some position of the input, the end included.
\<close>

fun rx_test_from :: "rx \<Rightarrow> cu option \<Rightarrow> jsstring \<Rightarrow> bool" where
  "rx_test_from r prev [] = (ends r (prev, []) \<noteq> [])"
| "rx_test_from r prev (c # cs) = (ends r (prev, c # cs) \<noteq> [] \<or> rx_test_from r (Some c) cs)"

definition rx_test :: "rx \<Rightarrow> jsstring \<Rightarrow> bool" where
  "rx_test r s = rx_test_from r None s"

text \<open>
  The number of matches \<open>String.prototype.match\<close> returns under the flag \<open>g\<close>: the
  leftmost match, then the leftmost match from where it ended (one code unit further
  after an empty match), and so on. The walk is over the positions of the input; \<open>k\<close> is
  the number of coming positions that the last match has covered.
\<close>

fun match_count_from :: "rx \<Rightarrow> nat \<Rightarrow> cu option \<Rightarrow> jsstring \<Rightarrow> nat" where
  "match_count_from r k prev [] = (if k = 0 \<and> ends r (prev, []) \<noteq> [] then 1 else 0)"
| "match_count_from r k prev (c # cs) =
     (if 0 < k then match_count_from r (k - 1) (Some c) cs
      else case ends r (prev, c # cs) of
             [] \<Rightarrow> match_count_from r 0 (Some c) cs
           | (_, rest) # _ \<Rightarrow> Suc (match_count_from r (length cs - length rest) (Some c) cs))"

definition match_count :: "rx \<Rightarrow> jsstring \<Rightarrow> nat" where
  "match_count r s = match_count_from r 0 None s"

section \<open>Text metrics\<close>

text \<open>\<open>countWords\<close>: 0 for the empty text, else the number of matches of \<open>/\w+/g\<close>.\<close>

definition countWords :: "jsstring \<Rightarrow> nat" where
  "countWords text = (if text = [] then 0 else match_count (PlusC isWordChar) text)"

text \<open>
  \<open>findForbidden\<close>: the listed words \<open>w\<close> for which \<open>\bw\b\<close> (the lower-cased word, escaped,
  so a literal) matches the lower-cased text, in the order of the list. Under the flag
  \<open>u\<close> of this expression the runtime matches code points; on well-formed UTF-16 that is
  the match on code units modelled here.
\<close>

definition findForbidden :: "jsstring \<Rightarrow> jsstring list \<Rightarrow> jsstring list" where
  "findForbidden text forbidden =
     (let t = toLowerCase text
      in filter (\<lambda>w. rx_test (seqs [WordB, lit (toLowerCase w), WordB]) t) forbidden)"

text \<open>\<open>containsRequired\<close> returns the required elements that are missing.\<close>

definition containsRequired :: "jsstring \<Rightarrow> jsstring list \<Rightarrow> jsstring list" where
  "containsRequired text required =
     (let t = toLowerCase text
      in filter (\<lambda>w. \<not> includes_str t (toLowerCase w)) required)"

text \<open>
  \<open>detectPrice\<close>: \<open>/\$\s?\d+/\<close>, \<open>/\bRs\.?\s?\d+/i\<close>, \<open>/\bINR\b\s?\d+/i\<close>, \<open>/\d+\s?\<close>rupee\<open>/\<close>.
\<close>

definition pricePatterns :: "rx list" where
  "pricePatterns =
     [seqs [Chr (\<lambda>c. c = 36), Opt (Chr isSpace), PlusC isDigit],
      seqs [WordB, liti (js ''Rs''), Opt (Chr (\<lambda>c. c = 46)), Opt (Chr isSpace), PlusC isDigit],
      seqs [WordB, liti (js ''INR''), WordB, Opt (Chr isSpace), PlusC isDigit],
      seqs [PlusC isDigit, Opt (Chr isSpace), Chr (\<lambda>c. c = rupee)]]"

definition detectPrice :: "jsstring \<Rightarrow> bool" where
  "detectPrice text = (if text = [] then False else list_ex (\<lambda>p. rx_test p text) pricePatterns)"

datatype sentiment = Positive | Negative | Neutral

definition positiveWords :: rx where
  "positiveWords =
     seqs [WordB,
           alts (liti (js ''good'')) [liti (js ''great''), liti (js ''excellent''),
             liti (js ''positive''), liti (js ''love''), liti (js ''like'')],
           WordB]"

definition negativeWords :: rx where
  "negativeWords =
     seqs [WordB,
           alts (liti (js ''bad'')) [liti (js ''terrible''), liti (js ''awful''),
             liti (js ''hate''), liti (js ''dislike''), liti (js ''poor'')],
           WordB]"

definition simpleSentiment :: "jsstring \<Rightarrow> sentiment" where
  "simpleSentiment text =
     (if text = [] then Neutral
      else let pos = match_count positiveWords text;
               neg = match_count negativeWords text
           in if neg < pos then Positive else if pos < neg then Negative else Neutral)"

section \<open>Evaluation results and criteria\<close>

text \<open>
  A violation code is a string built from a fixed template; the model keeps the template
  and its arguments apart. \<open>WordCountOff wc e\<close> is \<open>wordCount:wc/e\<close>,
  \<open>ExceededMaxWords wc m\<close> is \<open>exceeded_maxWords:wc/m\<close>, \<open>MissingElements ws\<close> is
  \<open>missing_elements:\<close> followed by the words joined with commas, \<open>ForbiddenWords ws\<close> is
  \<open>forbidden_words:\<close> followed by the words joined with commas, and
  \<open>SentimentMismatch want got\<close> is \<open>sentiment_mismatch:expected_want_got_got\<close>; the
  others are \<open>too_short\<close>, \<open>very_brief\<close>, \<open>missing_price\<close>, \<open>unexpected_price\<close>,
  \<open>missing_prompt_reconstruction\<close>, \<open>missing_reasoning\<close> and
  \<open>missing_context_understanding\<close>. Equal violations give equal strings.
\<close>

datatype violation =
    TooShort
  | VeryBrief
  | WordCountOff nat rat
  | ExceededMaxWords nat rat
  | MissingPrice
  | UnexpectedPrice
  | MissingElements "jsstring list"
  | ForbiddenWords "jsstring list"
  | SentimentMismatch sentiment sentiment
  | MissingPromptReconstruction
  | MissingReasoning
  | MissingContextUnderstanding

text \<open>
  \<open>EvaluationResult\<close>. The feedback string only renders the violations and the
  multiplier for the reader and no score depends on it; it is left out.
\<close>

record EvaluationResult =
  score :: rat
  violations :: "violation list"

text \<open>\<open>EvaluationCriteria\<close>: every field is optional, \<open>None\<close> is an absent field.\<close>

record EvaluationCriteria =
  wordCount :: "rat option"
  maxWords :: "rat option"
  containsPrice :: "bool option"
  requiredElements :: "jsstring list option"
  forbiddenWords :: "jsstring list option"
  sentiment :: "sentiment option"

definition noCriteria :: EvaluationCriteria where
  "noCriteria = \<lparr>wordCount = None, maxWords = None, containsPrice = None,
     requiredElements = None, forbiddenWords = None, sentiment = None\<rparr>"

section \<open>The criteria evaluator\<close>

text \<open>
  \<open>evaluateOutputAgainstCriteria\<close> threads a running score and the violations found so
  far through seven checks, in this order. Each check is one function on that pair.
\<close>

type_synonym running = "rat \<times> violation list"

definition checkLength :: "nat \<Rightarrow> running \<Rightarrow> running" where
  "checkLength wc = (\<lambda>(sc, vs).
     if wc < 10 then (sc - 30, vs @ [TooShort])
     else if wc < 20 then (sc - 15, vs @ [VeryBrief])
     else (sc, vs))"

definition checkWordCount :: "nat \<Rightarrow> rat option \<Rightarrow> running \<Rightarrow> running" where
  "checkWordCount wc c = (\<lambda>(sc, vs).
     case c of
       None \<Rightarrow> (sc, vs)
     | Some expected \<Rightarrow>
         if of_nat wc \<noteq> expected
         then (sc - min 25 (\<bar>of_nat wc - expected\<bar> * (3 / 2)), vs @ [WordCountOff wc expected])
         else (sc, vs))"

definition checkMaxWords :: "nat \<Rightarrow> rat option \<Rightarrow> running \<Rightarrow> running" where
  "checkMaxWords wc c = (\<lambda>(sc, vs).
     case c of
       None \<Rightarrow> (sc, vs)
     | Some mw \<Rightarrow>
         if mw < of_nat wc
         then (sc - min 25 ((of_nat wc - mw) * (6 / 5)), vs @ [ExceededMaxWords wc mw])
         else (sc, vs))"

definition checkPrice :: "jsstring \<Rightarrow> bool option \<Rightarrow> running \<Rightarrow> running" where
  "checkPrice output c = (\<lambda>(sc, vs).
     case c of
       None \<Rightarrow> (sc, vs)
     | Some wantsPrice \<Rightarrow>
         let hasPrice = detectPrice output;
             (sc1, vs1) = (if wantsPrice \<and> \<not> hasPrice then (sc - 15, vs @ [MissingPrice])
                           else (sc, vs))
         in if \<not> wantsPrice \<and> hasPrice then (sc1 - 5, vs1 @ [UnexpectedPrice])
            else (sc1, vs1))"

definition checkRequired :: "jsstring \<Rightarrow> jsstring list option \<Rightarrow> running \<Rightarrow> running" where
  "checkRequired output c = (\<lambda>(sc, vs).
     case c of
       None \<Rightarrow> (sc, vs)
     | Some req \<Rightarrow>
         let missing = containsRequired output req
         in if missing \<noteq> []
            then (sc - 12 * of_nat (length missing), vs @ [MissingElements missing])
            else (sc, vs))"

definition checkForbidden :: "jsstring \<Rightarrow> jsstring list option \<Rightarrow> running \<Rightarrow> running" where
  "checkForbidden output c = (\<lambda>(sc, vs).
     case c of
       None \<Rightarrow> (sc, vs)
     | Some fw \<Rightarrow>
         let found = findForbidden output fw
         in if found \<noteq> []
            then (sc - 15 * of_nat (length found), vs @ [ForbiddenWords found])
            else (sc, vs))"

definition checkSentiment :: "jsstring \<Rightarrow> sentiment option \<Rightarrow> running \<Rightarrow> running" where
  "checkSentiment output c = (\<lambda>(sc, vs).
     case c of
       None \<Rightarrow> (sc, vs)
     | Some want \<Rightarrow>
         let got = simpleSentiment output
         in if want \<noteq> got then (sc - 8, vs @ [SentimentMismatch want got])
            else (sc, vs))"

text \<open>The running pair after the seven checks, started at the base score 70.\<close>

definition runChecks :: "jsstring \<Rightarrow> EvaluationCriteria \<Rightarrow> running" where
  "runChecks output criteria =
     (let wc = countWords output
      in checkSentiment output (sentiment criteria)
          (checkForbidden output (forbiddenWords criteria)
            (checkRequired output (requiredElements criteria)
              (checkPrice output (containsPrice criteria)
                (checkMaxWords wc (maxWords criteria)
                  (checkWordCount wc (wordCount criteria)
                    (checkLength wc (70, []))))))))"

text \<open>The score before the multiplier: the running score, raised to 0 when negative.\<close>

definition preScore :: "jsstring \<Rightarrow> EvaluationCriteria \<Rightarrow> rat" where
  "preScore output criteria =
     (let sc = fst (runChecks output criteria) in if sc < 0 then 0 else sc)"

definition evaluateOutputAgainstCriteria ::
    "jsstring \<Rightarrow> EvaluationCriteria \<Rightarrow> rat \<Rightarrow> EvaluationResult" where
  "evaluateOutputAgainstCriteria output criteria roundMultiplier =
     (let finalScore = preScore output criteria * roundMultiplier
      in \<lparr>score = round2 finalScore, violations = snd (runChecks output criteria)\<rparr>)"

section \<open>The prompt-quality heuristic\<close>

text \<open>\<open>String.prototype.trim\<close>.\<close>

definition trim :: "jsstring \<Rightarrow> jsstring" where
  "trim s = rev (dropWhile isSpace (rev (dropWhile isSpace s)))"

text \<open>
  \<open>split(/\s+/)\<close>: the pieces between the maximal runs of white space; \<open>cur\<close> is the
  piece being read, reversed. A run at the very start or end leaves an empty piece there,
  and the empty string gives the one piece \<open>""\<close>.
\<close>

function split_ws :: "jsstring \<Rightarrow> jsstring \<Rightarrow> jsstring list" where
  "split_ws cur [] = [rev cur]"
| "split_ws cur (c # cs) =
     (if isSpace c then rev cur # split_ws [] (dropWhile isSpace cs)
      else split_ws (c # cur) cs)"
  by pat_completeness auto
termination
  by (relation "measure (\<lambda>(cur, s). length s)")
     (auto simp: length_dropWhile_le le_imp_less_Suc)

definition promptWords :: "jsstring \<Rightarrow> nat" where
  "promptWords prompt = length (split_ws [] (trim prompt))"

definition marketingTerms :: rx where
  "marketingTerms =
     alts (liti (js ''product'')) [liti (js ''marketing''), liti (js ''description''),
       liti (js ''compelling''), liti (js ''features''), liti (js ''benefits''),
       Seq (liti (js ''customer'')) (Opt (liti (js ''s'')))]"

definition brandTerms :: rx where
  "brandTerms =
     alts (liti (js ''creative'')) [liti (js ''innovative''), liti (js ''unique''),
       liti (js ''brand''), liti (js ''target''), liti (js ''audience'')]"

definition businessTerms :: rx where
  "businessTerms =
     alts (liti (js ''business'')) [liti (js ''strategy''), liti (js ''plan''),
       liti (js ''market''), liti (js ''analysis''), liti (js ''financial''),
       liti (js ''revenue''), liti (js ''growth'')]"

definition fundingTerms :: rx where
  "fundingTerms =
     alts (liti (js ''competitive'')) [liti (js ''scalable''), liti (js ''funding''),
       liti (js ''team''), liti (js ''projections''), liti (js ''risk''),
       liti (js ''mitigation'')]"

definition actionTerms :: rx where
  "actionTerms =
     alts (liti (js ''create'')) [liti (js ''generate''), liti (js ''develop''),
       liti (js ''build''), liti (js ''design''), liti (js ''write'')]"

definition qualityTerms :: rx where
  "qualityTerms =
     alts (liti (js ''detailed'')) [liti (js ''comprehensive''), liti (js ''specific''),
       liti (js ''professional''), liti (js ''high-quality'')]"

definition evaluatePromptQuality :: "jsstring \<Rightarrow> int \<Rightarrow> rat" where
  "evaluatePromptQuality prompt roundNum =
     (let words = promptWords prompt;
          s0 = (if words < 5 then 60 - 30
                else if words < 10 then 60 - 15
                else if 15 < words then 60 + 10
                else 60);
          s1 = (if roundNum = 1
                then (let a = (if rx_test marketingTerms prompt then s0 + 15 else s0)
                      in if rx_test brandTerms prompt then a + 10 else a)
                else if roundNum = 3
                then (let a = (if rx_test businessTerms prompt then s0 + 15 else s0)
                      in if rx_test fundingTerms prompt then a + 10 else a)
                else s0);
          s2 = (if rx_test actionTerms prompt then s1 + 5 else s1);
          s3 = (if rx_test qualityTerms prompt then s2 + 8 else s2)
      in max 20 (min 100 s3))"

section \<open>The reverse-engineering evaluator\<close>

definition includesAny :: "jsstring \<Rightarrow> string list \<Rightarrow> bool" where
  "includesAny response ws = list_ex (\<lambda>w. includes_str response (js w)) ws"

definition evaluateReverseEngineering :: "jsstring \<Rightarrow> EvaluationResult" where
  "evaluateReverseEngineering userResponse =
     (let response = toLowerCase userResponse;
          hasPromptReconstruction =
            includesAny response [''prompt'', ''ask'', ''write'', ''create''];
          (sc1, vs1) = (if \<not> hasPromptReconstruction
                        then (100 - 30, [MissingPromptReconstruction]) else (100, []));
          hasReasoning =
            includesAny response
              [''because'', ''likely'', ''suggests'', ''indicates'', ''reasoning''];
          (sc2, vs2) = (if \<not> hasReasoning
                        then (sc1 - 25, vs1 @ [MissingReasoning]) else (sc1, vs1));
          hasAnalysis = includesAny response [''style'', ''format'', ''structure'', ''detail''];
          sc3 = (if hasAnalysis then sc2 + 10 else sc2);
          hasContextUnderstanding =
            includesAny response [''recipe'', ''cooking'', ''baking'', ''ingredients''];
          (sc4, vs4) = (if \<not> hasContextUnderstanding
                        then (sc3 - 15, vs2 @ [MissingContextUnderstanding]) else (sc3, vs2));
          sc5 = (if sc4 < 0 then 0 else sc4)
      in \<lparr>score = round2 sc5, violations = vs4\<rparr>)"

section \<open>The round scoring policy of the submit route\<close>

text \<open>Round 1 scores once, round 2 one and a half times, round 3 twice, any other once.\<close>

definition roundMultiplier :: "int \<Rightarrow> rat" where
  "roundMultiplier roundNum =
     (if roundNum = 1 then 1 else if roundNum = 2 then 3 / 2 else if roundNum = 3 then 2 else 1)"

record Constraints =
  c_maxTokens :: "rat option"
  c_maxWords :: "rat option"
  c_forbiddenWords :: "jsstring list option"

text \<open>
  The scoring block of \<open>POST /api/submit-prompt\<close>: round 2 scores the prompt with the
  reverse-engineering evaluator; the other rounds blend the criteria score of the generated
  text (at multiplier 1) with the prompt-quality score, 60 to 40, and then apply the
  multiplier of the round.
\<close>

definition scoreSubmission ::
    "jsstring \<Rightarrow> jsstring \<Rightarrow> int \<Rightarrow> Constraints \<Rightarrow> EvaluationResult" where
  "scoreSubmission prompt llmResp roundNum constraintsObj =
     (let multiplier = roundMultiplier roundNum
      in if roundNum = 2
         then (let evalResult = evaluateReverseEngineering prompt
               in evalResult\<lparr>score := round2 (score evalResult * multiplier)\<rparr>)
         else (let criteria = noCriteria\<lparr>maxWords := c_maxWords constraintsObj,
                                forbiddenWords := c_forbiddenWords constraintsObj\<rparr>;
                   evalResult = evaluateOutputAgainstCriteria llmResp criteria 1;
                   promptScore = evaluatePromptQuality prompt roundNum;
                   combinedScore = score evalResult * (3 / 5) + promptScore * (2 / 5)
               in evalResult\<lparr>score := round2 (combinedScore * multiplier)\<rparr>))"

section \<open>The store and the two scoring routes\<close>

text \<open>
  The persistence store, as far as scoring touches it: the cumulative score of each team,
  by team id, and the submission records in the order of their creation.
\<close>

record Submission =
  s_teamId :: jsstring
  s_round :: "int option"
  s_challenge :: "jsstring option"
  s_prompt :: jsstring
  s_llmResponse :: jsstring
  s_score :: rat
  s_tokensUsed :: nat
  s_violations :: "violation list"

record Db =
  teams :: "jsstring \<rightharpoonup> rat"
  submissions :: "Submission list"

text \<open>\<open>prisma.submission.create\<close> and the update of a team's score.\<close>

definition submission_create :: "Db \<Rightarrow> Submission \<Rightarrow> Db" where
  "submission_create db sub = db\<lparr>submissions := submissions db @ [sub]\<rparr>"

definition team_update_score :: "Db \<Rightarrow> jsstring \<Rightarrow> rat \<Rightarrow> Db" where
  "team_update_score db teamId v = db\<lparr>teams := (teams db)(teamId := Some v)\<rparr>"

datatype response =
    Status400
  | Status404
  | Status500
  | SubmitOk bool rat
  | ScoreOk rat "violation list"

record SubmitPromptBody =
  b_teamId :: "jsstring option"
  b_round :: "int option"
  b_challenge :: "jsstring option"
  b_prompt :: "jsstring option"
  b_constraints :: "Constraints option"

text \<open>A string field of a request body counts when it is there and not empty.\<close>

definition present :: "jsstring option \<Rightarrow> bool" where
  "present f = (case f of None \<Rightarrow> False | Some t \<Rightarrow> t \<noteq> [])"

definition PASSING_THRESHOLD :: rat where
  "PASSING_THRESHOLD = 60"

text \<open>\<open>round || 1\<close> and \<open>constraints || {}\<close>.\<close>

definition roundOrDefault :: "int option \<Rightarrow> int" where
  "roundOrDefault r = (case r of None \<Rightarrow> 1 | Some n \<Rightarrow> if n = 0 then 1 else n)"

definition noConstraints :: Constraints where
  "noConstraints = \<lparr>c_maxTokens = None, c_maxWords = None, c_forbiddenWords = None\<rparr>"

definition constraintsOrEmpty :: "Constraints option \<Rightarrow> Constraints" where
  "constraintsOrEmpty c = (case c of None \<Rightarrow> noConstraints | Some x \<Rightarrow> x)"

text \<open>
  \<open>POST /api/submit-prompt\<close>. The third argument is what the text-generation service
  answers, \<open>None\<close> when the call fails. \<open>SubmitOk passed score\<close> is the success response.
\<close>

definition submitPrompt :: "Db \<Rightarrow> SubmitPromptBody \<Rightarrow> jsstring option \<Rightarrow> response \<times> Db" where
  "submitPrompt db body llm =
     (if \<not> present (b_teamId body) \<or> \<not> present (b_prompt body) then (Status400, db)
      else case (b_teamId body, b_prompt body) of
        (Some teamId, Some prompt) \<Rightarrow>
          (case teams db teamId of
             None \<Rightarrow> (Status404, db)
           | Some teamScore \<Rightarrow>
               (case llm of
                  None \<Rightarrow> (Status500, db)
                | Some llmResp \<Rightarrow>
                    let constraintsObj = constraintsOrEmpty (b_constraints body);
                        tokensUsed = max 1 (countWords llmResp);
                        roundNum = roundOrDefault (b_round body);
                        evalResult = scoreSubmission prompt llmResp roundNum constraintsObj;
                        passed = (PASSING_THRESHOLD \<le> score evalResult);
                        db1 = submission_create db
                                \<lparr>s_teamId = teamId, s_round = b_round body,
                                 s_challenge = b_challenge body, s_prompt = prompt,
                                 s_llmResponse = llmResp, s_score = score evalResult,
                                 s_tokensUsed = tokensUsed,
                                 s_violations = violations evalResult\<rparr>
                    in if passed
                       then (SubmitOk True (score evalResult),
                             team_update_score db1 teamId (teamScore + score evalResult))
                       else (SubmitOk False (score evalResult), db1)))
      | _ \<Rightarrow> (Status400, db))"

subsection \<open>The seeded rounds and the challenge scoring route\<close>

record SeedConstraint =
  sc_maxWords :: "rat option"
  sc_forbiddenWords :: "jsstring list option"
  sc_requiredElements :: "jsstring list option"

record SeedChallenge =
  slug :: jsstring
  constraints :: "SeedConstraint option"

record SeedRound =
  order :: int
  challenges :: "SeedChallenge list"

definition SEED_ROUNDS :: "SeedRound list" where
  "SEED_ROUNDS =
     [\<lparr>order = 1, challenges =
         [\<lparr>slug = js ''precision-product-description'',
           constraints = Some
             \<lparr>sc_maxWords = Some 75,
              sc_forbiddenWords = Some [js ''revolutionary'', js ''groundbreaking'',
                js ''unprecedented'', js ''game-changing'', js ''world-class''],
              sc_requiredElements = Some [[rupee], js ''battery'', js ''camera'',
                js ''mAh'']\<rparr>\<rparr>]\<rparr>,
      \<lparr>order = 2, challenges =
         [\<lparr>slug = js ''reverse-engineer-recipe'', constraints = None\<rparr>]\<rparr>,
      \<lparr>order = 3, challenges =
         [\<lparr>slug = js ''startup-business-plan'', constraints = None\<rparr>]\<rparr>]"

record ScoreBody =
  sb_teamId :: "jsstring option"
  sb_prompt :: "jsstring option"
  sb_llmOutput :: "jsstring option"
  sb_criteria :: "EvaluationCriteria option"
  sb_expectedCriteria :: "EvaluationCriteria option"

text \<open>
  The merged criteria: the constraints of the seeded challenge (a maximum only when it is
  not 0), each overridden by the field of the same name in the criteria of the request.
\<close>

definition orElse :: "'a option \<Rightarrow> 'a option \<Rightarrow> 'a option" where
  "orElse a b = (case a of Some x \<Rightarrow> Some x | None \<Rightarrow> b)"

definition mergeCriteria :: "SeedConstraint option \<Rightarrow> EvaluationCriteria \<Rightarrow> EvaluationCriteria" where
  "mergeCriteria cc baseCriteria =
     (let seedMax = (case cc of None \<Rightarrow> None | Some c \<Rightarrow>
                       (case sc_maxWords c of None \<Rightarrow> None
                        | Some m \<Rightarrow> if m = 0 then None else Some m));
          seedForbidden = (case cc of None \<Rightarrow> None | Some c \<Rightarrow> sc_forbiddenWords c);
          seedRequired = (case cc of None \<Rightarrow> None | Some c \<Rightarrow> sc_requiredElements c)
      in \<lparr>wordCount = wordCount baseCriteria,
          maxWords = orElse (maxWords baseCriteria) seedMax,
          containsPrice = containsPrice baseCriteria,
          requiredElements = orElse (requiredElements baseCriteria) seedRequired,
          forbiddenWords = orElse (forbiddenWords baseCriteria) seedForbidden,
          sentiment = sentiment baseCriteria\<rparr>)"

text \<open>The text stored in place of a prompt that the request does not carry.\<close>

definition noPrompt :: jsstring where
  "noPrompt = js ''(scoring) No prompt provided''"

text \<open>
  The 1-based indices of the route select a seeded round and one of its challenges. A
  route parameter is \<open>None\<close> when it is not the text of an integer; the result \<open>None\<close>
  is the response 400 for such a parameter or for an index out of range.
\<close>

definition resolveChallenge :: "int option \<Rightarrow> int option \<Rightarrow> (SeedRound \<times> SeedChallenge) option" where
  "resolveChallenge roundParam challengeParam =
     (case roundParam of
        None \<Rightarrow> None
      | Some r \<Rightarrow>
          (let roundIndex = r - 1
           in if roundIndex < 0 \<or> int (length SEED_ROUNDS) \<le> roundIndex then None
              else (let roundDef = SEED_ROUNDS ! nat roundIndex
                    in (case challengeParam of
                          None \<Rightarrow> None
                        | Some c \<Rightarrow>
                            (let challengeIndex = c - 1
                             in if challengeIndex < 0 \<or>
                                   int (length (challenges roundDef)) \<le> challengeIndex
                                then None
                                else Some (roundDef,
                                           challenges roundDef ! nat challengeIndex))))))"

text \<open>
  \<open>POST /api/challenges/:round/:challengeId/score\<close>. \<open>ScoreOk score violations\<close> is
  the success response.
\<close>

definition scoreChallenge :: "Db \<Rightarrow> int option \<Rightarrow> int option \<Rightarrow> ScoreBody \<Rightarrow> response \<times> Db" where
  "scoreChallenge db roundParam challengeParam body =
     (case sb_llmOutput body of
        None \<Rightarrow> (Status400, db)
      | Some llmOutput \<Rightarrow>
          (if llmOutput = [] then (Status400, db)
           else (case resolveChallenge roundParam challengeParam of
                   None \<Rightarrow> (Status400, db)
                 | Some (roundDef, ch) \<Rightarrow>
                     (let baseCriteria =
                            (case orElse (sb_criteria body) (sb_expectedCriteria body) of
                               None \<Rightarrow> noCriteria
                             | Some b \<Rightarrow> b);
                          merged = mergeCriteria (constraints ch) baseCriteria;
                          roundNum = order roundDef;
                          multiplier = roundMultiplier roundNum;
                          result = evaluateOutputAgainstCriteria llmOutput merged multiplier
                      in if present (sb_teamId body)
                         then (case sb_teamId body of
                                 None \<Rightarrow> (Status400, db)
                               | Some teamId \<Rightarrow>
                                   (case teams db teamId of
                                      None \<Rightarrow> (Status404, db)
                                    | Some teamScore \<Rightarrow>
                                        (let db1 = submission_create db
                                               \<lparr>s_teamId = teamId,
                                                s_round = Some (order roundDef),
                                                s_challenge = Some (slug ch),
                                                s_prompt = (case sb_prompt body of
                                                              None \<Rightarrow> noPrompt
                                                            | Some p \<Rightarrow> p),
                                                s_llmResponse = llmOutput,
                                                s_score = score result,
                                                s_tokensUsed = countWords llmOutput,
                                                s_violations = violations result\<rparr>
                                         in (ScoreOk (score result) (violations result),
                                             team_update_score db1 teamId
                                               (teamScore + score result)))))
                         else (ScoreOk (score result) (violations result), db)))))"

section \<open>Team progress\<close>

text \<open>
  The progress route reads the round and the score of every submission of the team and
  computes one entry for each of the rounds 1, 2 and 3.
\<close>

type_synonym history = "(int option \<times> rat) list"

record ProgressEntry =
  p_round :: int
  unlocked :: bool
  accessible :: bool
  locked :: bool
  completed :: bool
  bestScore :: "rat option"
  attempts :: nat

definition roundSubmissions :: "history \<Rightarrow> int \<Rightarrow> history" where
  "roundSubmissions subs roundNum = filter (\<lambda>s. fst s = Some roundNum) subs"

definition isPreviousRoundCompleted :: "history \<Rightarrow> int \<Rightarrow> bool" where
  "isPreviousRoundCompleted subs r =
     (if r \<le> 1 then True
      else let prevRoundSubs = roundSubmissions subs (r - 1);
               prevBestScore = math_max0 (map snd prevRoundSubs)
           in PASSING_THRESHOLD \<le> prevBestScore)"

text \<open>
  The flags \<open>accessible\<close> and \<open>locked\<close> both start false and are assigned in the order of
  the source: for round 2, \<open>accessible\<close> is computed from \<open>locked\<close> before \<open>locked\<close> is
  assigned.
\<close>

definition progressEntry :: "history \<Rightarrow> int \<Rightarrow> ProgressEntry" where
  "progressEntry subs roundNum =
     (let rs = roundSubmissions subs roundNum;
          best = math_max0 (map snd rs);
          isCompleted = (PASSING_THRESHOLD \<le> best);
          accessible0 = False;
          locked0 = False;
          (accessible1, locked1) =
            (if roundNum = 1 then (True, isPreviousRoundCompleted subs 2)
             else if roundNum = 2
             then (let a = (isPreviousRoundCompleted subs roundNum \<and> \<not> locked0);
                       l = isPreviousRoundCompleted subs 3
                   in (a, l))
             else if roundNum = 3 then (isPreviousRoundCompleted subs roundNum, False)
             else (accessible0, locked0))
      in \<lparr>p_round = roundNum,
          unlocked = isPreviousRoundCompleted subs roundNum,
          accessible = accessible1,
          locked = locked1,
          completed = isCompleted,
          bestScore = (if 0 < best then Some best else None),
          attempts = length rs\<rparr>)"

definition roundProgress :: "history \<Rightarrow> ProgressEntry list" where
  "roundProgress subs = map (progressEntry subs) [1, 2, 3]"

section \<open>Inputs of the examples\<close>

text \<open>Scenario A of the specification.\<close>

definition scenarioA_output :: jsstring where
  "scenarioA_output =
     js ''Great product! Amazing value for just $99 with a 5000mAh battery and 108MP camera.''"

definition scenarioA_criteria :: EvaluationCriteria where
  "scenarioA_criteria =
     noCriteria\<lparr>maxWords := Some 75, forbiddenWords := Some [js ''amazing''],
       requiredElements := Some [[rupee], js ''battery'', js ''camera'']\<rparr>"

text \<open>An answer with a reconstruction, a reasoning, an analysis and a context marker.\<close>

definition fullAnswer :: jsstring where
  "fullAnswer = js ''The prompt was likely a recipe in list format''"

text \<open>A store with the one team \<open>t\<close> at total 0, and requests of that team.\<close>

definition team_t :: jsstring where
  "team_t = js ''t''"

definition db0 :: Db where
  "db0 = \<lparr>teams = (\<lambda>k. if k = team_t then Some 0 else None), submissions = []\<rparr>"

definition shortOutput :: jsstring where
  "shortOutput = rupee # js '' battery camera mAh''"

definition scoreBody0 :: ScoreBody where
  "scoreBody0 = \<lparr>sb_teamId = Some team_t, sb_prompt = None, sb_llmOutput = Some shortOutput,
     sb_criteria = None, sb_expectedCriteria = None\<rparr>"

text \<open>The criteria of the first seeded challenge, with nothing overridden.\<close>

definition gauntletCriteria :: EvaluationCriteria where
  "gauntletCriteria =
     noCriteria\<lparr>maxWords := Some 75,
       requiredElements := Some [[rupee], js ''battery'', js ''camera'', js ''mAh''],
       forbiddenWords := Some [js ''revolutionary'', js ''groundbreaking'',
         js ''unprecedented'', js ''game-changing'', js ''world-class'']\<rparr>"

definition submitBody0 :: SubmitPromptBody where
  "submitBody0 = \<lparr>b_teamId = Some team_t, b_round = Some 2, b_challenge = None,
     b_prompt = Some fullAnswer, b_constraints = None\<rparr>"

definition submitBody1 :: SubmitPromptBody where
  "submitBody1 = \<lparr>b_teamId = Some team_t, b_round = Some 2, b_challenge = None,
     b_prompt = Some (js ''hello''), b_constraints = None\<rparr>"

text \<open>A team that passed round 1 with 75 and round 2 with 90.\<close>

definition passedTwoRounds :: history where
  "passedTwoRounds = [(Some 1, 75), (Some 2, 90)]"

text \<open>
  A history with two attempts at round 2, the failed one first, between entries of the
  other rounds and one entry without a round.
\<close>

definition mixedHistory :: history where
  "mixedHistory = [(Some 2, 10), (Some 1, 75), (Some 2, 90), (Some 3, 5), (None, 99)]"

section \<open>Rounding\<close>

lemma floor_rat_numeral_div [simp]:
  "\<lfloor>(numeral a :: rat) / numeral b\<rfloor> = numeral a div numeral b"
  by (metis floor_divide_of_int_eq of_int_numeral)

lemma floor_rat_one_div [simp]: "\<lfloor>(1 :: rat) / numeral b\<rfloor> = 1 div numeral b"
  by (metis floor_divide_of_int_eq of_int_1 of_int_numeral)

lemma floor_rat_neg_numeral_div [simp]:
  "\<lfloor>- (numeral a / numeral b :: rat)\<rfloor> = - numeral a div numeral b"
proof -
  have "- (numeral a / numeral b :: rat) = of_int (- numeral a) / of_int (numeral b)"
    by simp
  then show ?thesis
    by (simp only: floor_divide_of_int_eq)
qed

lemma math_round_of_int [simp]: "math_round (of_int n) = n"
  unfolding math_round_def by (simp add: floor_eq_iff)

text \<open>A number of whole hundredths is its own rounding to two decimals.\<close>

lemma round2_hundredths: "x * 100 \<in> \<int> \<Longrightarrow> round2 x = x"
  by (auto simp: round2_def elim!: Ints_cases)

lemma round2_nonneg: "0 \<le> x \<Longrightarrow> 0 \<le> round2 x"
  by (simp add: round2_def math_round_def)

text \<open>Rounding to two decimals does not cross a bound that is a number of whole hundredths.\<close>

lemma round2_le:
  assumes "x \<le> b" and "b * 100 \<in> \<int>"
  shows "round2 x \<le> b"
proof -
  from assms(2) obtain n :: int where n: "b * 100 = of_int n"
    by (auto elim: Ints_cases)
  have "x * 100 + 1 / 2 < of_int n + 1"
    using assms(1) n by linarith
  then have "math_round (x * 100) \<le> n"
    unfolding math_round_def by (simp add: floor_le_iff)
  then have "(of_int (math_round (x * 100)) :: rat) \<le> of_int n"
    by simp
  then show ?thesis
    using n by (simp add: round2_def)
qed

section \<open>The criteria evaluator only subtracts\<close>

lemma checkLength_le: "fst (checkLength wc st) \<le> fst st"
  by (cases st) (simp add: checkLength_def)

lemma checkWordCount_le: "fst (checkWordCount wc c st) \<le> fst st"
  by (cases st) (simp add: checkWordCount_def split: option.splits)

lemma checkMaxWords_le: "fst (checkMaxWords wc c st) \<le> fst st"
  by (cases st) (simp add: checkMaxWords_def split: option.splits)

lemma checkPrice_le: "fst (checkPrice out c st) \<le> fst st"
  by (cases st) (simp add: checkPrice_def Let_def split: option.splits)

lemma checkRequired_le: "fst (checkRequired out c st) \<le> fst st"
  by (cases st) (simp add: checkRequired_def Let_def split: option.splits)

lemma checkForbidden_le: "fst (checkForbidden out c st) \<le> fst st"
  by (cases st) (simp add: checkForbidden_def Let_def split: option.splits)

lemma checkSentiment_le: "fst (checkSentiment out c st) \<le> fst st"
  by (cases st) (simp add: checkSentiment_def Let_def split: option.splits)

lemma runChecks_le: "fst (runChecks out c) \<le> 70"
proof -
  let ?wc = "countWords out"
  let ?s1 = "checkLength ?wc (70, [])"
  let ?s2 = "checkWordCount ?wc (wordCount c) ?s1"
  let ?s3 = "checkMaxWords ?wc (maxWords c) ?s2"
  let ?s4 = "checkPrice out (containsPrice c) ?s3"
  let ?s5 = "checkRequired out (requiredElements c) ?s4"
  let ?s6 = "checkForbidden out (forbiddenWords c) ?s5"
  let ?s7 = "checkSentiment out (sentiment c) ?s6"
  have "fst ?s1 \<le> 70"
    using checkLength_le[of ?wc "(70, [])"] by simp
  moreover have "fst ?s2 \<le> fst ?s1" by (rule checkWordCount_le)
  moreover have "fst ?s3 \<le> fst ?s2" by (rule checkMaxWords_le)
  moreover have "fst ?s4 \<le> fst ?s3" by (rule checkPrice_le)
  moreover have "fst ?s5 \<le> fst ?s4" by (rule checkRequired_le)
  moreover have "fst ?s6 \<le> fst ?s5" by (rule checkForbidden_le)
  moreover have "fst ?s7 \<le> fst ?s6" by (rule checkSentiment_le)
  ultimately have "fst ?s7 \<le> 70" by linarith
  then show ?thesis
    by (simp add: runChecks_def Let_def)
qed

lemma preScore_bounds: "0 \<le> preScore out c \<and> preScore out c \<le> 70"
  using runChecks_le[of out c] by (simp add: preScore_def Let_def)

lemmas check_defs =
  checkLength_def checkWordCount_def checkMaxWords_def checkPrice_def checkRequired_def
  checkForbidden_def checkSentiment_def

text \<open>
  C1, as amended. The score before the multiplier lies in [0, 70] for every output and
  every criteria. For every multiplier \<open>m \<ge> 0\<close> for which \<open>70 m\<close> is a number of whole
  hundredths, the round multipliers 1, 1.5 and 2 among them, the returned score lies in
  [0, 70 m].
\<close>

theorem C1_score_within_70_times_multiplier:
  "0 \<le> preScore out c \<and> preScore out c \<le> 70 \<and>
   (0 \<le> m \<and> 70 * m * 100 \<in> \<int> \<longrightarrow>
      0 \<le> score (evaluateOutputAgainstCriteria out c m) \<and>
      score (evaluateOutputAgainstCriteria out c m) \<le> 70 * m)"
proof -
  have b: "0 \<le> preScore out c" "preScore out c \<le> 70"
    using preScore_bounds by auto
  have "0 \<le> score (evaluateOutputAgainstCriteria out c m) \<and>
        score (evaluateOutputAgainstCriteria out c m) \<le> 70 * m"
    if m: "0 \<le> m" and i: "70 * m * 100 \<in> \<int>"
  proof -
    have "0 \<le> preScore out c * m"
      using b m by simp
    then have lo: "0 \<le> round2 (preScore out c * m)"
      by (rule round2_nonneg)
    have "preScore out c * m \<le> 70 * m"
      using b m by (simp add: mult_right_mono)
    then have "round2 (preScore out c * m) \<le> 70 * m"
      using i by (rule round2_le)
    with lo show ?thesis
      by (simp add: evaluateOutputAgainstCriteria_def Let_def)
  qed
  with b show ?thesis by blast
qed

theorem C1_score_within_70_times_multiplier_witness:
  "(0::rat) \<le> 3 / 2 \<and> 70 * (3 / 2) * 100 \<in> (\<int> :: rat set) \<and>
   0 \<le> score (evaluateOutputAgainstCriteria [] noCriteria (3 / 2)) \<and>
   score (evaluateOutputAgainstCriteria [] noCriteria (3 / 2)) \<le> 70 * (3 / 2)"
  using C1_score_within_70_times_multiplier[of "[]" noCriteria "3 / 2"] by simp

text \<open>
  C1 as stated fails for some multipliers: with multiplier -1 the empty output scores
  -40, and with multiplier 0.00013 it scores 0.01, above 70 times 0.00013.
\<close>

theorem C1_every_multiplier_counterexample:
  "score (evaluateOutputAgainstCriteria [] noCriteria (- 1)) = - 40 \<and>
   score (evaluateOutputAgainstCriteria [] noCriteria (13 / 100000)) = 1 / 100 \<and>
   \<not> 1 / 100 \<le> 70 * (13 / 100000 :: rat)"
  by (simp add: evaluateOutputAgainstCriteria_def preScore_def runChecks_def noCriteria_def
      countWords_def check_defs round2_def math_round_def)

section \<open>Scenario A\<close>

lemma scenarioA_wc: "countWords scenarioA_output = 14"
  by (simp add: scenarioA_output_def countWords_def js_def match_count_def isWordChar_def)

lemma scenarioA_missing:
  "containsRequired scenarioA_output [[rupee], js ''battery'', js ''camera''] = [[rupee]]"
  by (simp add: scenarioA_output_def containsRequired_def js_def toLowerCase_def lowerCu_def
      rupee_def)

lemma scenarioA_found: "findForbidden scenarioA_output [js ''amazing''] = [js ''amazing'']"
  by (simp add: scenarioA_output_def findForbidden_def js_def toLowerCase_def lowerCu_def
      rx_test_def lit_def seqs_def atWordBoundary_def isWordChar_def)

lemmas scenarioA_simps =
  evaluateOutputAgainstCriteria_def preScore_def runChecks_def scenarioA_criteria_def
  noCriteria_def scenarioA_wc scenarioA_missing scenarioA_found check_defs round2_def
  math_round_def

text \<open>
  C3, as amended. The output of scenario A has 14 words, so the evaluator reports
  \<open>very_brief\<close>: with the criteria of the scenario and multiplier 1 it returns the score
  28 (70, less 15 for the brevity, 12 for the one missing element and 15 for the forbidden
  word) and the violations \<open>very_brief\<close>, \<open>missing_elements:\<close>rupee and
  \<open>forbidden_words:amazing\<close>, in this order; \<open>too_short\<close> is not among them.
\<close>

theorem C3_scenarioA_scores_28:
  "countWords scenarioA_output = 14 \<and>
   evaluateOutputAgainstCriteria scenarioA_output scenarioA_criteria 1 =
     \<lparr>score = 28,
      violations = [VeryBrief, MissingElements [[rupee]], ForbiddenWords [js ''amazing'']]\<rparr>"
  by (simp add: scenarioA_simps)

text \<open>C3 as stated fails: the score is not 43, and \<open>very_brief\<close> is reported.\<close>

theorem C3_scenarioA_not_43_counterexample:
  "score (evaluateOutputAgainstCriteria scenarioA_output scenarioA_criteria 1) \<noteq> 43 \<and>
   VeryBrief \<in> set (violations
     (evaluateOutputAgainstCriteria scenarioA_output scenarioA_criteria 1)) \<and>
   \<not> 20 \<le> countWords scenarioA_output"
  by (simp add: scenarioA_simps)

section \<open>The multiplier scales the score\<close>

lemma scaled_by_10:
  fixes x :: rat
  assumes "x \<in> \<int>"
  shows "(x * (3 / 2)) * 10 \<in> \<int>" and "(x * (6 / 5)) * 10 \<in> \<int>"
proof -
  have "15 * x \<in> \<int>" "12 * x \<in> \<int>"
    using assms by simp_all
  then show "(x * (3 / 2)) * 10 \<in> \<int>" and "(x * (6 / 5)) * 10 \<in> \<int>"
    by simp_all
qed

lemma diff_scaled_by_10:
  "a * 10 \<in> \<int> \<Longrightarrow> b * 10 \<in> \<int> \<Longrightarrow> (a - b) * 10 \<in> (\<int> :: rat set)"
  by (simp add: left_diff_distrib)

text \<open>
  With whole-number limits every penalty is a number of whole tenths, and so is the
  running score after each check.
\<close>

lemma checkLength_tenths: "fst st * 10 \<in> \<int> \<Longrightarrow> fst (checkLength wc st) * 10 \<in> \<int>"
  by (cases st) (simp add: checkLength_def left_diff_distrib)

lemma checkWordCount_tenths:
  assumes "fst st * 10 \<in> \<int>" and "\<forall>e. c = Some e \<longrightarrow> e \<in> \<int>"
  shows "fst (checkWordCount wc c st) * 10 \<in> \<int>"
proof (cases c)
  case None
  then show ?thesis
    using assms by (cases st) (simp add: checkWordCount_def)
next
  case (Some e)
  then have "e \<in> \<int>"
    using assms by simp
  then have d: "\<bar>of_nat wc - e\<bar> \<in> \<int>"
    by simp
  have "min 25 (\<bar>of_nat wc - e\<bar> * (3 / 2)) * 10 \<in> \<int>"
    using scaled_by_10(1)[OF d] by (simp add: min_def)
  then show ?thesis
    using assms(1) Some by (cases st) (simp add: checkWordCount_def diff_scaled_by_10)
qed

lemma checkMaxWords_tenths:
  assumes "fst st * 10 \<in> \<int>" and "\<forall>e. c = Some e \<longrightarrow> e \<in> \<int>"
  shows "fst (checkMaxWords wc c st) * 10 \<in> \<int>"
proof (cases c)
  case None
  then show ?thesis
    using assms by (cases st) (simp add: checkMaxWords_def)
next
  case (Some e)
  then have "e \<in> \<int>"
    using assms by simp
  then have d: "of_nat wc - e \<in> \<int>"
    by simp
  have "min 25 ((of_nat wc - e) * (6 / 5)) * 10 \<in> \<int>"
    using scaled_by_10(2)[OF d] by (simp add: min_def)
  then show ?thesis
    using assms(1) Some by (cases st) (simp add: checkMaxWords_def diff_scaled_by_10)
qed

lemma checkPrice_tenths: "fst st * 10 \<in> \<int> \<Longrightarrow> fst (checkPrice out c st) * 10 \<in> \<int>"
  by (cases st) (simp add: checkPrice_def Let_def left_diff_distrib split: option.splits)

lemma checkRequired_tenths:
  "fst st * 10 \<in> \<int> \<Longrightarrow> fst (checkRequired out c st) * 10 \<in> \<int>"
  by (cases st) (simp add: checkRequired_def Let_def left_diff_distrib split: option.splits)

lemma checkForbidden_tenths:
  "fst st * 10 \<in> \<int> \<Longrightarrow> fst (checkForbidden out c st) * 10 \<in> \<int>"
  by (cases st) (simp add: checkForbidden_def Let_def left_diff_distrib split: option.splits)

lemma checkSentiment_tenths:
  "fst st * 10 \<in> \<int> \<Longrightarrow> fst (checkSentiment out c st) * 10 \<in> \<int>"
  by (cases st) (simp add: checkSentiment_def Let_def left_diff_distrib split: option.splits)

lemma runChecks_tenths:
  assumes "\<forall>e. wordCount c = Some e \<longrightarrow> e \<in> \<int>" and "\<forall>e. maxWords c = Some e \<longrightarrow> e \<in> \<int>"
  shows "fst (runChecks out c) * 10 \<in> \<int>"
  unfolding runChecks_def Let_def
  by (intro checkSentiment_tenths checkForbidden_tenths checkRequired_tenths checkPrice_tenths
      checkMaxWords_tenths checkWordCount_tenths checkLength_tenths assms) simp

lemma preScore_hundredths:
  assumes "\<forall>e. wordCount c = Some e \<longrightarrow> e \<in> \<int>" and "\<forall>e. maxWords c = Some e \<longrightarrow> e \<in> \<int>"
  shows "preScore out c * 100 \<in> \<int>"
proof -
  have "fst (runChecks out c) * 10 \<in> \<int>"
    using assms by (rule runChecks_tenths)
  then have "fst (runChecks out c) * 10 * 10 \<in> \<int>"
    by (rule Ints_mult) simp
  then have "fst (runChecks out c) * 100 \<in> \<int>"
    by (simp add: mult.assoc)
  then show ?thesis
    by (simp add: preScore_def Let_def)
qed

text \<open>
  C4, as amended. The violation list is the same for every multiplier. For every output
  and every criteria whose exact word count and maximum word count, where present, are
  whole numbers, the score at a multiplier \<open>m\<close> (so at 1, 1.5 and 2) is the score at
  multiplier 1, times \<open>m\<close>, rounded to two decimals.
\<close>

theorem C4_multiplier_scales_whole_number_limits:
  "violations (evaluateOutputAgainstCriteria out c m) =
     violations (evaluateOutputAgainstCriteria out c 1) \<and>
   ((\<forall>e. wordCount c = Some e \<longrightarrow> e \<in> \<int>) \<and> (\<forall>e. maxWords c = Some e \<longrightarrow> e \<in> \<int>) \<longrightarrow>
      score (evaluateOutputAgainstCriteria out c m) =
        round2 (score (evaluateOutputAgainstCriteria out c 1) * m))"
proof -
  have "score (evaluateOutputAgainstCriteria out c m) =
        round2 (score (evaluateOutputAgainstCriteria out c 1) * m)"
    if "\<forall>e. wordCount c = Some e \<longrightarrow> e \<in> \<int>" and "\<forall>e. maxWords c = Some e \<longrightarrow> e \<in> \<int>"
  proof -
    have "preScore out c * 100 \<in> \<int>"
      using that by (rule preScore_hundredths)
    then have "round2 (preScore out c) = preScore out c"
      by (rule round2_hundredths)
    then show ?thesis
      by (simp add: evaluateOutputAgainstCriteria_def Let_def)
  qed
  then show ?thesis
    by (simp add: evaluateOutputAgainstCriteria_def Let_def)
qed

theorem C4_multiplier_scales_whole_number_limits_witness:
  "wordCount scenarioA_criteria = None \<and> maxWords scenarioA_criteria = Some 75 \<and>
   (75 :: rat) \<in> \<int> \<and>
   score (evaluateOutputAgainstCriteria scenarioA_output scenarioA_criteria (3 / 2)) =
     round2 (score (evaluateOutputAgainstCriteria scenarioA_output scenarioA_criteria 1) * (3 / 2))"
  using C4_multiplier_scales_whole_number_limits
    [of scenarioA_output scenarioA_criteria "3 / 2"]
  by (simp add: scenarioA_criteria_def noCriteria_def)

text \<open>
  C4 as stated fails for a fractional limit: for the empty output and the exact word
  count 10.003, the score at multiplier 1.5 is 37.49, but the score at multiplier 1 is 25,
  and 25 times 1.5 is 37.5.
\<close>

theorem C4_fractional_word_count_counterexample:
  "score (evaluateOutputAgainstCriteria []
      (noCriteria\<lparr>wordCount := Some (10003 / 1000)\<rparr>) (3 / 2)) = 3749 / 100 \<and>
   round2 (score (evaluateOutputAgainstCriteria []
      (noCriteria\<lparr>wordCount := Some (10003 / 1000)\<rparr>) 1) * (3 / 2)) = 3750 / 100"
  by (simp add: evaluateOutputAgainstCriteria_def preScore_def runChecks_def noCriteria_def
      countWords_def check_defs round2_def math_round_def)

section \<open>The reverse-engineering score\<close>

lemma evaluateReverseEngineering_bounds:
  "0 \<le> score (evaluateReverseEngineering u) \<and> score (evaluateReverseEngineering u) \<le> 110"
  unfolding evaluateReverseEngineering_def Let_def
  by (simp add: round2_def math_round_def split: if_splits prod.splits)

lemma fullAnswer_result:
  "evaluateReverseEngineering fullAnswer = \<lparr>score = 110, violations = []\<rparr>"
  by (simp add: fullAnswer_def evaluateReverseEngineering_def includesAny_def js_def
      toLowerCase_def lowerCu_def round2_def math_round_def)

text \<open>
  C9. The score of the reverse-engineering evaluator lies in [0, 110] for every response,
  and a response with a reconstruction, a reasoning, an analysis and a context marker
  scores 110, which is above 100.
\<close>

theorem C9_reverse_engineering_score_up_to_110:
  "0 \<le> score (evaluateReverseEngineering u) \<and>
   score (evaluateReverseEngineering u) \<le> 110 \<and>
   score (evaluateReverseEngineering fullAnswer) = 110 \<and>
   100 < score (evaluateReverseEngineering fullAnswer)"
  using evaluateReverseEngineering_bounds[of u] by (simp add: fullAnswer_result)

section \<open>Prompts of white space\<close>

lemma space_not_word: "isSpace c \<Longrightarrow> \<not> isWordChar c"
  by (auto simp: isSpace_def isWordChar_def)

lemma space_canon:
  assumes "isSpace c" and "97 \<le> k" and "k \<le> 122"
  shows "canon c \<noteq> canon k"
proof -
  have "canon c = c" and "c < 65 \<or> 90 < c"
    using assms(1) by (auto simp: isSpace_def canon_def)
  moreover have "65 \<le> canon k \<and> canon k \<le> 90"
    using assms(2,3) unfolding canon_def by (simp, arith)
  ultimately show ?thesis by auto
qed

lemma trim_spaces: "\<forall>c\<in>set p. isSpace c \<Longrightarrow> trim p = []"
  by (auto simp: trim_def dest: set_dropWhileD)

lemma split_ws_nonempty: "split_ws cur s \<noteq> []"
  by (induction cur s rule: split_ws.induct) simp_all

lemma promptWords_positive: "0 < promptWords q"
  by (simp add: promptWords_def split_ws_nonempty)

lemma promptWords_spaces: "\<forall>c\<in>set p. isSpace c \<Longrightarrow> promptWords p = 1"
  by (simp add: promptWords_def trim_spaces)

text \<open>
  A regular expression that matches neither at the end of the input nor before a
  white-space code unit finds nothing in an input of white space.
\<close>

lemma rx_test_from_spaces:
  assumes "\<And>prev s. s = [] \<or> isSpace (hd s) \<Longrightarrow> ends r (prev, s) = []"
    and "\<forall>c\<in>set p. isSpace c"
  shows "\<not> rx_test_from r prev p"
  using assms(2)
proof (induction p arbitrary: prev)
  case Nil
  then show ?case by (simp add: assms(1))
next
  case (Cons c cs)
  then show ?case by (simp add: assms(1))
qed

lemma ends_Chr_fail: "s = [] \<or> \<not> P (hd s) \<Longrightarrow> ends (Seq (Chr P) r) (prev, s) = []"
  by (cases s) auto

lemma liti_fails_on_space:
  assumes "s = [] \<or> isSpace (hd s)" and "97 \<le> k" and "k \<le> 122"
  shows "ends (liti (k # w)) (prev, s) = []"
proof -
  have "s = [] \<or> \<not> canon (hd s) = canon k"
    using assms space_canon[of "hd s" k] by auto
  moreover have "liti (k # w) = Seq (Chr (\<lambda>x. canon x = canon k)) (liti w)"
    by (simp add: liti_def seqs_def)
  ultimately show ?thesis
    by (simp only: ends_Chr_fail)
qed

lemma terms_fail_on_space:
  assumes "s = [] \<or> isSpace (hd s)"
  shows "ends marketingTerms (prev, s) = []"
    and "ends brandTerms (prev, s) = []"
    and "ends businessTerms (prev, s) = []"
    and "ends fundingTerms (prev, s) = []"
    and "ends actionTerms (prev, s) = []"
    and "ends qualityTerms (prev, s) = []"
  using assms
  by (simp_all add: marketingTerms_def brandTerms_def businessTerms_def fundingTerms_def
      actionTerms_def qualityTerms_def js_def liti_fails_on_space)

lemma evaluatePromptQuality_spaces:
  assumes "\<forall>c\<in>set p. isSpace c"
  shows "evaluatePromptQuality p r = 30"
proof -
  have "\<not> rx_test marketingTerms p" "\<not> rx_test brandTerms p" "\<not> rx_test businessTerms p"
    "\<not> rx_test fundingTerms p" "\<not> rx_test actionTerms p" "\<not> rx_test qualityTerms p"
    unfolding rx_test_def
    by (rule rx_test_from_spaces[OF _ assms], erule terms_fail_on_space)+
  then show ?thesis
    by (simp add: evaluatePromptQuality_def promptWords_spaces[OF assms])
qed

lemma match_count_spaces:
  "\<forall>c\<in>set p. isSpace c \<Longrightarrow> match_count_from (PlusC isWordChar) 0 prev p = 0"
  by (induction p arbitrary: prev) (simp_all add: space_not_word)

lemma countWords_spaces: "\<forall>c\<in>set p. isSpace c \<Longrightarrow> countWords p = 0"
  by (simp add: countWords_def match_count_def match_count_spaces)

text \<open>
  C10. The word count of the prompt-quality heuristic is never 0; for the empty prompt,
  and for every prompt of white space only, it is 1 where \<open>countWords\<close> gives 0, and the
  heuristic returns 30 whatever the round: 60, less 30 for a prompt under 5 words, with no
  keyword bonus, and above the floor 20.
\<close>

theorem C10_empty_prompt_scores_30:
  "evaluatePromptQuality [] r = 30 \<and> promptWords [] = 1 \<and> countWords [] = 0 \<and>
   0 < promptWords q \<and>
   ((\<forall>c\<in>set p. isSpace c) \<longrightarrow>
      promptWords p = 1 \<and> countWords p = 0 \<and> evaluatePromptQuality p r = 30)"
  using evaluatePromptQuality_spaces[of "[]" r] promptWords_spaces[of "[]"]
    evaluatePromptQuality_spaces[of p r] promptWords_spaces[of p] countWords_spaces[of p]
    promptWords_positive[of q]
  by (simp add: countWords_def)

theorem C10_empty_prompt_scores_30_witness:
  "isSpace 32 \<and> isSpace 9 \<and> promptWords [32, 9] = 1 \<and> countWords [32, 9] = 0 \<and>
   evaluatePromptQuality [32, 9] 3 = 30"
  using C10_empty_prompt_scores_30[of 3 "[]" "[32, 9]"] by (simp add: isSpace_def)

section \<open>Unlocking and the progress entries\<close>

lemma math_max0_Max: "math_max0 xs = Max (insert 0 (set xs))"
  unfolding math_max0_def using Max.set_eq_fold[of 0 xs] by simp

lemma math_max0_ge_iff: "b \<le> math_max0 xs \<longleftrightarrow> b \<le> 0 \<or> (\<exists>x\<in>set xs. b \<le> x)"
  by (simp add: math_max0_Max Max_ge_iff)

lemma math_max0_gt_iff: "0 < math_max0 xs \<longleftrightarrow> (\<exists>x\<in>set xs. 0 < x)"
  by (simp add: math_max0_Max Max_gr_iff)

lemma math_max0_pos:
  assumes "\<exists>x\<in>set xs. 0 < x"
  shows "math_max0 xs = Max (set xs)"
proof -
  have ne: "set xs \<noteq> {}"
    using assms by auto
  then have "Max (insert 0 (set xs)) = max 0 (Max (set xs))"
    by simp
  moreover have "0 \<le> Max (set xs)"
    using assms ne by (meson List.finite_set Max_ge_iff less_imp_le)
  ultimately show ?thesis
    by (simp add: math_max0_Max)
qed

lemma unlocked_iff:
  "1 < r \<Longrightarrow> unlocked (progressEntry subs r) \<longleftrightarrow>
     (\<exists>s\<in>set (roundSubmissions subs (r - 1)). 60 \<le> snd s)"
  by (simp add: progressEntry_def Let_def isPreviousRoundCompleted_def PASSING_THRESHOLD_def
      math_max0_ge_iff split: prod.splits)

lemmas progress_simps =
  roundProgress_def progressEntry_def isPreviousRoundCompleted_def roundSubmissions_def
  math_max0_def PASSING_THRESHOLD_def

text \<open>The scores of the entries of round \<open>k\<close> in a history, and their number.\<close>

lemma round_scores:
  "set (map snd (roundSubmissions subs k)) = {sc. (Some k, sc) \<in> set subs}"
  by (force simp: roundSubmissions_def)

lemma round_scores_ex:
  "(\<exists>s\<in>set (roundSubmissions subs k). P (snd s)) \<longleftrightarrow> (\<exists>sc. (Some k, sc) \<in> set subs \<and> P sc)"
  by (force simp: roundSubmissions_def)

lemma attempts_count:
  "length (filter (\<lambda>s. fst s = Some k) subs) = count_list (map fst subs) (Some k)"
  by (induction subs) auto

text \<open>
  C5. The progress consists of the entries of the rounds 1, 2 and 3. Round 1 is always
  unlocked. For \<open>r\<close> in {2, 3}, round \<open>r\<close> is unlocked exactly when the history holds an
  entry of round \<open>r - 1\<close> with a score of at least 60, that is, when it holds entries of
  round \<open>r - 1\<close> and the greatest of their scores is at least 60; so two histories with
  the same scores at round \<open>r - 1\<close> agree on it, whatever their entries of the other
  rounds.
\<close>

theorem C5_unlocked_by_previous_round_best:
  "roundProgress subs = [progressEntry subs 1, progressEntry subs 2, progressEntry subs 3] \<and>
   map p_round (roundProgress subs) = [1, 2, 3] \<and>
   unlocked (progressEntry subs 1) \<and>
   (r = 2 \<or> r = 3 \<longrightarrow>
      (unlocked (progressEntry subs r) \<longleftrightarrow> (\<exists>sc. (Some (r - 1), sc) \<in> set subs \<and> 60 \<le> sc)) \<and>
      (unlocked (progressEntry subs r) \<longleftrightarrow>
         {sc. (Some (r - 1), sc) \<in> set subs} \<noteq> {} \<and>
         60 \<le> Max {sc. (Some (r - 1), sc) \<in> set subs}) \<and>
      ((\<forall>sc. (Some (r - 1), sc) \<in> set subs' \<longleftrightarrow> (Some (r - 1), sc) \<in> set subs) \<longrightarrow>
         unlocked (progressEntry subs' r) = unlocked (progressEntry subs r)))"
proof -
  have u1: "unlocked (progressEntry subs 1)"
    by (simp add: progressEntry_def Let_def isPreviousRoundCompleted_def split: prod.splits)
  have rp: "roundProgress subs =
      [progressEntry subs 1, progressEntry subs 2, progressEntry subs 3]"
    by (simp add: roundProgress_def)
  have pr: "map p_round (roundProgress subs) = [1, 2, 3]"
    by (simp add: roundProgress_def progressEntry_def Let_def split: prod.splits)
  have ex: "unlocked (progressEntry h r) \<longleftrightarrow> (\<exists>sc. (Some (r - 1), sc) \<in> set h \<and> 60 \<le> sc)"
    if "r = 2 \<or> r = 3" for h
  proof -
    have "1 < r"
      using that by auto
    then have "unlocked (progressEntry h r) \<longleftrightarrow>
        (\<exists>s\<in>set (roundSubmissions h (r - 1)). 60 \<le> snd s)"
      by (rule unlocked_iff)
    then show ?thesis
      by (simp only: round_scores_ex)
  qed
  have mx: "(\<exists>sc. (Some (r - 1), sc) \<in> set subs \<and> 60 \<le> sc) \<longleftrightarrow>
      {sc. (Some (r - 1), sc) \<in> set subs} \<noteq> {} \<and>
      60 \<le> Max {sc. (Some (r - 1), sc) \<in> set subs}"
  proof -
    have fin: "finite {sc. (Some (r - 1), sc) \<in> set subs}"
      using round_scores[of subs "r - 1"] by (metis List.finite_set)
    show ?thesis
    proof (cases "{sc. (Some (r - 1), sc) \<in> set subs} = {}")
      case True
      then show ?thesis by auto
    next
      case False
      then show ?thesis
        using fin by (simp add: Max_ge_iff)
    qed
  qed
  have same: "unlocked (progressEntry subs' r) = unlocked (progressEntry subs r)"
    if "r = 2 \<or> r = 3"
      and "\<forall>sc. (Some (r - 1), sc) \<in> set subs' \<longleftrightarrow> (Some (r - 1), sc) \<in> set subs"
    using that(2) ex[OF that(1), of subs'] ex[OF that(1), of subs] by simp
  show ?thesis
    using u1 rp pr ex[of subs] mx same by blast
qed

theorem C5_unlocked_by_previous_round_best_witness:
  "(Some (3 - 1), 90) \<in> set mixedHistory \<and> (60 :: rat) \<le> 90 \<and>
   unlocked (progressEntry mixedHistory 1) \<and>
   unlocked (progressEntry mixedHistory 2) \<and>
   unlocked (progressEntry mixedHistory 3) \<and>
   60 \<le> Max {sc. (Some (3 - 1), sc) \<in> set mixedHistory}"
proof -
  have m: "(Some (3 - 1), 90) \<in> set mixedHistory \<and> (60 :: rat) \<le> 90"
    by (simp add: mixedHistory_def)
  have m1: "(Some (2 - 1), 75) \<in> set mixedHistory \<and> (60 :: rat) \<le> 75"
    by (simp add: mixedHistory_def)
  note t3 = C5_unlocked_by_previous_round_best[of mixedHistory 3 mixedHistory]
  note t2 = C5_unlocked_by_previous_round_best[of mixedHistory 2 mixedHistory]
  have u3: "unlocked (progressEntry mixedHistory 3)"
    using t3 m by blast
  have mx: "60 \<le> Max {sc. (Some (3 - 1), sc) \<in> set mixedHistory}"
    using t3 u3 by blast
  have u2: "unlocked (progressEntry mixedHistory 2)"
    using t2 m1 by blast
  have u1: "unlocked (progressEntry mixedHistory 1)"
    using t3 by blast
  show ?thesis
    using m u1 u2 u3 mx by blast
qed

text \<open>
  C7. The code gives round 2 the flag \<open>accessible\<close> whenever it is unlocked: the conjunct
  on \<open>locked\<close> is read before \<open>locked\<close> is assigned. For the team that passed rounds 1 and
  2, round 3 is unlocked and round 2 is locked, and round 2 is still accessible.
\<close>

theorem C7_round2_accessible_after_round3_unlocked:
  "unlocked (roundProgress passedTwoRounds ! 1) \<and>
   unlocked (roundProgress passedTwoRounds ! 2) \<and>
   locked (roundProgress passedTwoRounds ! 1) \<and>
   accessible (roundProgress passedTwoRounds ! 1)"
  by (simp add: passedTwoRounds_def progress_simps)

text \<open>
  C8, as amended. In the entry of a round, \<open>attempts\<close> is the number of the entries of
  the history that carry this round; \<open>bestScore\<close> is null exactly when none of them has a
  score above 0, and when one has, it is the greatest score among them.
\<close>

theorem C8_bestScore_null_unless_positive:
  "attempts (progressEntry subs r) = length (filter (\<lambda>s. fst s = Some r) subs) \<and>
   attempts (progressEntry subs r) = count_list (map fst subs) (Some r) \<and>
   (bestScore (progressEntry subs r) = None \<longleftrightarrow>
      (\<forall>sc. (Some r, sc) \<in> set subs \<longrightarrow> sc \<le> 0)) \<and>
   ((\<exists>sc. (Some r, sc) \<in> set subs \<and> 0 < sc) \<longrightarrow>
      bestScore (progressEntry subs r) = Some (Max {sc. (Some r, sc) \<in> set subs}))"
proof -
  let ?xs = "map snd (roundSubmissions subs r)"
  have b: "bestScore (progressEntry subs r) =
      (if 0 < math_max0 ?xs then Some (math_max0 ?xs) else None)"
    by (simp add: progressEntry_def Let_def split: prod.splits)
  have a: "attempts (progressEntry subs r) = length (filter (\<lambda>s. fst s = Some r) subs)"
    by (simp add: progressEntry_def roundSubmissions_def Let_def split: prod.splits)
  have g: "0 < math_max0 ?xs \<longleftrightarrow> (\<exists>sc. (Some r, sc) \<in> set subs \<and> 0 < sc)"
    using round_scores[of subs r] by (auto simp: math_max0_gt_iff)
  have n: "bestScore (progressEntry subs r) = None \<longleftrightarrow>
      (\<forall>sc. (Some r, sc) \<in> set subs \<longrightarrow> sc \<le> 0)"
  proof -
    have "(\<forall>sc. (Some r, sc) \<in> set subs \<longrightarrow> sc \<le> 0) \<longleftrightarrow>
          \<not> (\<exists>sc. (Some r, sc) \<in> set subs \<and> 0 < sc)"
      by (auto simp: not_less)
    then show ?thesis
      using b g by simp
  qed
  have "bestScore (progressEntry subs r) = Some (Max {sc. (Some r, sc) \<in> set subs})"
    if "\<exists>sc. (Some r, sc) \<in> set subs \<and> 0 < sc"
  proof -
    have "\<exists>x\<in>set ?xs. 0 < x"
      using that round_scores[of subs r] by auto
    then have "math_max0 ?xs = Max (set ?xs)"
      by (rule math_max0_pos)
    then have "math_max0 ?xs = Max {sc. (Some r, sc) \<in> set subs}"
      by (simp only: round_scores)
    then show ?thesis
      using b g that by simp
  qed
  then show ?thesis
    using a n attempts_count[of r subs] by simp
qed

lemma mixed_round2_scores: "{sc. (Some 2, sc) \<in> set mixedHistory} = {10, 90}"
  by (auto simp: mixedHistory_def)

theorem C8_bestScore_null_unless_positive_witness:
  "(Some 2, 90) \<in> set mixedHistory \<and> (0 :: rat) < 90 \<and>
   attempts (progressEntry mixedHistory 2) = 2 \<and>
   bestScore (progressEntry mixedHistory 2) = Some 90"
proof -
  have m: "(Some 2, 90) \<in> set mixedHistory \<and> (0 :: rat) < 90"
    by (simp add: mixedHistory_def)
  note t = C8_bestScore_null_unless_positive[of mixedHistory 2]
  have "bestScore (progressEntry mixedHistory 2) = Some (Max {sc. (Some 2, sc) \<in> set mixedHistory})"
    using t m by blast
  then have "bestScore (progressEntry mixedHistory 2) = Some 90"
    by (simp add: mixed_round2_scores)
  moreover have "attempts (progressEntry mixedHistory 2) = 2"
    using t by (simp add: mixedHistory_def)
  ultimately show ?thesis
    using m by simp
qed

text \<open>
  C8 as stated fails: a team whose only attempt at round 1 scored 0 has one attempt
  there and the best score null.
\<close>

theorem C8_zero_score_attempt_counterexample:
  "attempts (roundProgress [(Some 1, 0)] ! 0) = 1 \<and>
   bestScore (roundProgress [(Some 1, 0)] ! 0) = None"
  by (simp add: progress_simps)

section \<open>What the two scoring routes write\<close>

lemma submitPrompt_ok:
  assumes "b_teamId body = Some t" "t \<noteq> []" "b_prompt body = Some p" "p \<noteq> []" "teams db t = Some tot"
  shows "submitPrompt db body (Some out) =
    (let ev = scoreSubmission p out (roundOrDefault (b_round body)) (constraintsOrEmpty (b_constraints body));
         db1 = submission_create db \<lparr>s_teamId = t, s_round = b_round body,
                                 s_challenge = b_challenge body, s_prompt = p,
                                 s_llmResponse = out, s_score = score ev,
                                 s_tokensUsed = max 1 (countWords out),
                                 s_violations = violations ev\<rparr>
     in if 60 \<le> score ev then (SubmitOk True (score ev), team_update_score db1 t (tot + score ev))
        else (SubmitOk False (score ev), db1))"
  using assms by (simp add: submitPrompt_def present_def Let_def PASSING_THRESHOLD_def)

lemma scoreChallenge_ok:
  assumes "sb_llmOutput body = Some out" "out \<noteq> []" "resolveChallenge rp cp = Some (rd, ch)"
    "sb_teamId body = Some t" "t \<noteq> []" "teams db t = Some tot"
  shows "scoreChallenge db rp cp body =
    (let result = evaluateOutputAgainstCriteria out
            (mergeCriteria (constraints ch)
               (case orElse (sb_criteria body) (sb_expectedCriteria body) of None \<Rightarrow> noCriteria | Some b \<Rightarrow> b))
            (roundMultiplier (order rd));
         db1 = submission_create db \<lparr>s_teamId = t, s_round = Some (order rd), s_challenge = Some (slug ch),
                 s_prompt = (case sb_prompt body of None \<Rightarrow> noPrompt | Some q \<Rightarrow> q),
                 s_llmResponse = out, s_score = score result, s_tokensUsed = countWords out,
                 s_violations = violations result\<rparr>
     in (ScoreOk (score result) (violations result), team_update_score db1 t (tot + score result)))"
  using assms by (simp add: scoreChallenge_def present_def Let_def)

lemma seed_first: "resolveChallenge (Some 1) (Some 1) = Some (SEED_ROUNDS ! 0, challenges (SEED_ROUNDS ! 0) ! 0)"
  by (simp add: resolveChallenge_def SEED_ROUNDS_def)

lemma seed_first_order: "order (SEED_ROUNDS ! 0) = 1"
  by (simp add: SEED_ROUNDS_def)

lemma seed_first_merged:
  "mergeCriteria (constraints (challenges (SEED_ROUNDS ! 0) ! 0)) noCriteria = gauntletCriteria"
  by (simp add: SEED_ROUNDS_def mergeCriteria_def noCriteria_def orElse_def gauntletCriteria_def)

lemma short_wc: "countWords shortOutput = 3"
  by (simp add: shortOutput_def countWords_def js_def match_count_def isWordChar_def rupee_def)

lemma short_missing:
  "containsRequired shortOutput [[rupee], js ''battery'', js ''camera'', js ''mAh''] = []"
  by (simp add: shortOutput_def containsRequired_def js_def toLowerCase_def lowerCu_def rupee_def)

lemma short_found:
  "findForbidden shortOutput [js ''revolutionary'', js ''groundbreaking'',
         js ''unprecedented'', js ''game-changing'', js ''world-class''] = []"
  by (simp add: shortOutput_def findForbidden_def js_def toLowerCase_def lowerCu_def rupee_def
      rx_test_def lit_def seqs_def atWordBoundary_def isWordChar_def)

lemma short_eval:
  "evaluateOutputAgainstCriteria shortOutput gauntletCriteria 1 = \<lparr>score = 40, violations = [TooShort]\<rparr>"
  by (simp add: evaluateOutputAgainstCriteria_def preScore_def runChecks_def gauntletCriteria_def
      noCriteria_def short_wc short_missing short_found check_defs round2_def math_round_def)


lemma team_t_facts: "team_t \<noteq> []" "teams db0 team_t = Some 0"
  by (simp_all add: team_t_def db0_def js_def)

lemma shortOutput_nonempty: "shortOutput \<noteq> []"
  by (simp add: shortOutput_def)

lemma scoreBody0_result:
  "evaluateOutputAgainstCriteria shortOutput
     (mergeCriteria (constraints (challenges (SEED_ROUNDS ! 0) ! 0))
        (case orElse (sb_criteria scoreBody0) (sb_expectedCriteria scoreBody0) of
           None \<Rightarrow> noCriteria | Some b \<Rightarrow> b))
     (roundMultiplier (order (SEED_ROUNDS ! 0))) = \<lparr>score = 40, violations = [TooShort]\<rparr>"
proof -
  have "(case orElse (sb_criteria scoreBody0) (sb_expectedCriteria scoreBody0) of
           None \<Rightarrow> noCriteria | Some b \<Rightarrow> b) = noCriteria"
    by (simp add: scoreBody0_def orElse_def)
  moreover have "roundMultiplier (order (SEED_ROUNDS ! 0)) = 1"
    by (simp add: seed_first_order roundMultiplier_def)
  ultimately show ?thesis
    by (simp only: seed_first_merged short_eval)
qed

lemma hello_score:
  "score (scoreSubmission (js ''hello'') [] (roundOrDefault (b_round submitBody1))
     (constraintsOrEmpty (b_constraints submitBody1))) = 45"
  by (simp add: submitBody1_def roundOrDefault_def scoreSubmission_def roundMultiplier_def
      evaluateReverseEngineering_def includesAny_def js_def toLowerCase_def lowerCu_def
      round2_def math_round_def)

text \<open>
  C2, as amended. On the submit route, every scored attempt of an existing team appends
  one submission record, which holds the final score; the total of the team grows by
  exactly that score when it is at least 60 and stays as it was when it is below 60, and
  no other total changes. On the challenge scoring route a scored request that names an
  existing team appends one record, holding the returned score, and the total of the
  team grows by exactly that score whatever its value, with no threshold and no other
  total changed; a request that names no team leaves the store as it was.
\<close>

theorem C2_submit_route_gates_total_by_threshold:
  "(b_teamId body = Some t \<and> t \<noteq> [] \<and> b_prompt body = Some p \<and> p \<noteq> [] \<and>
    teams db t = Some tot \<longrightarrow>
     (\<exists>sub. submissions (snd (submitPrompt db body (Some out))) = submissions db @ [sub] \<and>
        s_teamId sub = t \<and>
        s_score sub = score (scoreSubmission p out (roundOrDefault (b_round body))
                               (constraintsOrEmpty (b_constraints body))) \<and>
        fst (submitPrompt db body (Some out)) = SubmitOk (60 \<le> s_score sub) (s_score sub) \<and>
        teams (snd (submitPrompt db body (Some out))) =
          (if 60 \<le> s_score sub then (teams db)(t := Some (tot + s_score sub))
           else teams db))) \<and>
   (sb_teamId sbody = Some t \<and> t \<noteq> [] \<and> sb_llmOutput sbody = Some outp \<and> outp \<noteq> [] \<and>
    resolveChallenge rp cp = Some (rd, ch) \<and> teams db t = Some tot \<longrightarrow>
     (\<exists>sub. submissions (snd (scoreChallenge db rp cp sbody)) = submissions db @ [sub] \<and>
        s_teamId sub = t \<and>
        s_score sub = score (evaluateOutputAgainstCriteria outp
            (mergeCriteria (constraints ch)
               (case orElse (sb_criteria sbody) (sb_expectedCriteria sbody) of
                  None \<Rightarrow> noCriteria | Some b \<Rightarrow> b))
            (roundMultiplier (order rd))) \<and>
        s_violations sub = violations (evaluateOutputAgainstCriteria outp
            (mergeCriteria (constraints ch)
               (case orElse (sb_criteria sbody) (sb_expectedCriteria sbody) of
                  None \<Rightarrow> noCriteria | Some b \<Rightarrow> b))
            (roundMultiplier (order rd))) \<and>
        fst (scoreChallenge db rp cp sbody) = ScoreOk (s_score sub) (s_violations sub) \<and>
        teams (snd (scoreChallenge db rp cp sbody)) = (teams db)(t := Some (tot + s_score sub)))) \<and>
   (\<not> present (sb_teamId sbody) \<longrightarrow> snd (scoreChallenge db rp cp sbody) = db)"
proof (intro conjI impI)
  assume a: "b_teamId body = Some t \<and> t \<noteq> [] \<and> b_prompt body = Some p \<and> p \<noteq> [] \<and>
    teams db t = Some tot"
  have e: "submitPrompt db body (Some out) =
    (let ev = scoreSubmission p out (roundOrDefault (b_round body))
                (constraintsOrEmpty (b_constraints body));
         db1 = submission_create db
                 \<lparr>s_teamId = t, s_round = b_round body, s_challenge = b_challenge body,
                  s_prompt = p, s_llmResponse = out, s_score = score ev,
                  s_tokensUsed = max 1 (countWords out), s_violations = violations ev\<rparr>
     in if 60 \<le> score ev
        then (SubmitOk True (score ev), team_update_score db1 t (tot + score ev))
        else (SubmitOk False (score ev), db1))"
    using a by (intro submitPrompt_ok) simp_all
  show "\<exists>sub. submissions (snd (submitPrompt db body (Some out))) = submissions db @ [sub] \<and>
        s_teamId sub = t \<and>
        s_score sub = score (scoreSubmission p out (roundOrDefault (b_round body))
                               (constraintsOrEmpty (b_constraints body))) \<and>
        fst (submitPrompt db body (Some out)) = SubmitOk (60 \<le> s_score sub) (s_score sub) \<and>
        teams (snd (submitPrompt db body (Some out))) =
          (if 60 \<le> s_score sub then (teams db)(t := Some (tot + s_score sub))
           else teams db)"
    unfolding e by (simp add: Let_def submission_create_def team_update_score_def)
next
  assume a: "sb_teamId sbody = Some t \<and> t \<noteq> [] \<and> sb_llmOutput sbody = Some outp \<and>
    outp \<noteq> [] \<and> resolveChallenge rp cp = Some (rd, ch) \<and> teams db t = Some tot"
  have e: "scoreChallenge db rp cp sbody =
    (let result = evaluateOutputAgainstCriteria outp
            (mergeCriteria (constraints ch)
               (case orElse (sb_criteria sbody) (sb_expectedCriteria sbody) of
                  None \<Rightarrow> noCriteria | Some b \<Rightarrow> b))
            (roundMultiplier (order rd));
         db1 = submission_create db
                 \<lparr>s_teamId = t, s_round = Some (order rd), s_challenge = Some (slug ch),
                  s_prompt = (case sb_prompt sbody of None \<Rightarrow> noPrompt | Some q \<Rightarrow> q),
                  s_llmResponse = outp, s_score = score result,
                  s_tokensUsed = countWords outp, s_violations = violations result\<rparr>
     in (ScoreOk (score result) (violations result),
         team_update_score db1 t (tot + score result)))"
    using a by (intro scoreChallenge_ok) simp_all
  show "\<exists>sub. submissions (snd (scoreChallenge db rp cp sbody)) = submissions db @ [sub] \<and>
        s_teamId sub = t \<and>
        s_score sub = score (evaluateOutputAgainstCriteria outp
            (mergeCriteria (constraints ch)
               (case orElse (sb_criteria sbody) (sb_expectedCriteria sbody) of
                  None \<Rightarrow> noCriteria | Some b \<Rightarrow> b))
            (roundMultiplier (order rd))) \<and>
        s_violations sub = violations (evaluateOutputAgainstCriteria outp
            (mergeCriteria (constraints ch)
               (case orElse (sb_criteria sbody) (sb_expectedCriteria sbody) of
                  None \<Rightarrow> noCriteria | Some b \<Rightarrow> b))
            (roundMultiplier (order rd))) \<and>
        fst (scoreChallenge db rp cp sbody) = ScoreOk (s_score sub) (s_violations sub) \<and>
        teams (snd (scoreChallenge db rp cp sbody)) = (teams db)(t := Some (tot + s_score sub))"
    unfolding e by (simp add: Let_def submission_create_def team_update_score_def)
next
  assume "\<not> present (sb_teamId sbody)"
  then show "snd (scoreChallenge db rp cp sbody) = db"
    by (simp add: scoreChallenge_def Let_def split: option.splits prod.splits)
qed

theorem C2_submit_route_gates_total_by_threshold_witness:
  "b_teamId submitBody1 = Some team_t \<and> team_t \<noteq> [] \<and>
   b_prompt submitBody1 = Some (js ''hello'') \<and> js ''hello'' \<noteq> [] \<and>
   teams db0 team_t = Some 0 \<and>
   fst (submitPrompt db0 submitBody1 (Some [])) = SubmitOk False 45 \<and>
   length (submissions (snd (submitPrompt db0 submitBody1 (Some [])))) = 1 \<and>
   teams (snd (submitPrompt db0 submitBody1 (Some []))) = teams db0 \<and>
   sb_teamId scoreBody0 = Some team_t \<and> sb_llmOutput scoreBody0 = Some shortOutput \<and>
   shortOutput \<noteq> [] \<and>
   resolveChallenge (Some 1) (Some 1) = Some (SEED_ROUNDS ! 0, challenges (SEED_ROUNDS ! 0) ! 0) \<and>
   length (submissions (snd (scoreChallenge db0 (Some 1) (Some 1) scoreBody0))) = 1 \<and>
   fst (scoreChallenge db0 (Some 1) (Some 1) scoreBody0) = ScoreOk 40 [TooShort] \<and>
   teams (snd (scoreChallenge db0 (Some 1) (Some 1) scoreBody0)) team_t = Some 40 \<and>
   sb_teamId (scoreBody0\<lparr>sb_teamId := None\<rparr>) = None \<and>
   snd (scoreChallenge db0 (Some 1) (Some 1) (scoreBody0\<lparr>sb_teamId := None\<rparr>)) = db0"
proof -
  have hyp1: "b_teamId submitBody1 = Some team_t \<and> team_t \<noteq> [] \<and>
      b_prompt submitBody1 = Some (js ''hello'') \<and> js ''hello'' \<noteq> [] \<and>
      teams db0 team_t = Some 0"
    by (simp add: submitBody1_def team_t_facts js_def)
  have hyp2: "sb_teamId scoreBody0 = Some team_t \<and> team_t \<noteq> [] \<and>
      sb_llmOutput scoreBody0 = Some shortOutput \<and> shortOutput \<noteq> [] \<and>
      resolveChallenge (Some 1) (Some 1) =
        Some (SEED_ROUNDS ! 0, challenges (SEED_ROUNDS ! 0) ! 0) \<and>
      teams db0 team_t = Some 0"
    by (simp add: scoreBody0_def team_t_facts shortOutput_nonempty seed_first)
  note inst = C2_submit_route_gates_total_by_threshold[where body = submitBody1 and t = team_t and p = "js ''hello''"
      and db = db0 and tot = 0 and out = "[]" and sbody = scoreBody0 and outp = shortOutput
      and rp = "Some 1" and cp = "Some 1" and rd = "SEED_ROUNDS ! 0"
      and ch = "challenges (SEED_ROUNDS ! 0) ! 0"]
  from inst hyp1 obtain sub where
    s: "submissions (snd (submitPrompt db0 submitBody1 (Some []))) = submissions db0 @ [sub]"
      "s_score sub = score (scoreSubmission (js ''hello'') []
         (roundOrDefault (b_round submitBody1)) (constraintsOrEmpty (b_constraints submitBody1)))"
      "fst (submitPrompt db0 submitBody1 (Some [])) = SubmitOk (60 \<le> s_score sub) (s_score sub)"
      "teams (snd (submitPrompt db0 submitBody1 (Some []))) =
         (if 60 \<le> s_score sub then (teams db0)(team_t := Some (0 + s_score sub)) else teams db0)"
    by blast
  from inst hyp2 obtain sub2 where
    s2: "submissions (snd (scoreChallenge db0 (Some 1) (Some 1) scoreBody0)) =
           submissions db0 @ [sub2]"
      "s_score sub2 = score (evaluateOutputAgainstCriteria shortOutput
          (mergeCriteria (constraints (challenges (SEED_ROUNDS ! 0) ! 0))
             (case orElse (sb_criteria scoreBody0) (sb_expectedCriteria scoreBody0) of
                None \<Rightarrow> noCriteria | Some b \<Rightarrow> b))
          (roundMultiplier (order (SEED_ROUNDS ! 0))))"
      "s_violations sub2 = violations (evaluateOutputAgainstCriteria shortOutput
          (mergeCriteria (constraints (challenges (SEED_ROUNDS ! 0) ! 0))
             (case orElse (sb_criteria scoreBody0) (sb_expectedCriteria scoreBody0) of
                None \<Rightarrow> noCriteria | Some b \<Rightarrow> b))
          (roundMultiplier (order (SEED_ROUNDS ! 0))))"
      "fst (scoreChallenge db0 (Some 1) (Some 1) scoreBody0) =
         ScoreOk (s_score sub2) (s_violations sub2)"
      "teams (snd (scoreChallenge db0 (Some 1) (Some 1) scoreBody0)) =
         (teams db0)(team_t := Some (0 + s_score sub2))"
    by blast
  have sc2: "s_score sub2 = 40"
    using s2(2) by (simp only: scoreBody0_result EvaluationResult.simps)
  have vs2: "s_violations sub2 = [TooShort]"
    using s2(3) by (simp only: scoreBody0_result EvaluationResult.simps)
  have r2: "fst (scoreChallenge db0 (Some 1) (Some 1) scoreBody0) = ScoreOk 40 [TooShort]"
    using s2(4) sc2 vs2 by simp
  have t2: "teams (snd (scoreChallenge db0 (Some 1) (Some 1) scoreBody0)) team_t = Some 40"
    using s2(5) sc2 by simp
  have hyp3: "\<not> present (sb_teamId (scoreBody0\<lparr>sb_teamId := None\<rparr>))"
    by (simp add: present_def)
  have s3: "snd (scoreChallenge db0 (Some 1) (Some 1) (scoreBody0\<lparr>sb_teamId := None\<rparr>)) = db0"
    using C2_submit_route_gates_total_by_threshold
      [where sbody = "scoreBody0\<lparr>sb_teamId := None\<rparr>" and db = db0
        and rp = "Some 1" and cp = "Some 1"]
      hyp3
    by blast
  have "s_score sub = 45"
    using s(2) hello_score by simp
  then show ?thesis
    using hyp1 hyp2 s s2(1) r2 t2 s3 by (simp add: db0_def)
qed

text \<open>
  C2 as stated fails on the challenge scoring route: an output of three words scored
  for the first seeded challenge gets 40, below the threshold, and the total of the team
  goes from 0 to 40.
\<close>

theorem C2_score_route_adds_failing_score_counterexample:
  "teams db0 team_t = Some 0 \<and>
   fst (scoreChallenge db0 (Some 1) (Some 1) scoreBody0) = ScoreOk 40 [TooShort] \<and>
   teams (snd (scoreChallenge db0 (Some 1) (Some 1) scoreBody0)) team_t = Some 40 \<and>
   \<not> PASSING_THRESHOLD \<le> 40"
proof -
  have "scoreChallenge db0 (Some 1) (Some 1) scoreBody0 =
    (let result = evaluateOutputAgainstCriteria shortOutput
            (mergeCriteria (constraints (challenges (SEED_ROUNDS ! 0) ! 0))
               (case orElse (sb_criteria scoreBody0) (sb_expectedCriteria scoreBody0) of None \<Rightarrow> noCriteria | Some b \<Rightarrow> b))
            (roundMultiplier (order (SEED_ROUNDS ! 0)));
         db1 = submission_create db0 \<lparr>s_teamId = team_t, s_round = Some (order (SEED_ROUNDS ! 0)),
                 s_challenge = Some (slug (challenges (SEED_ROUNDS ! 0) ! 0)),
                 s_prompt = (case sb_prompt scoreBody0 of None \<Rightarrow> noPrompt | Some q \<Rightarrow> q),
                 s_llmResponse = shortOutput, s_score = score result, s_tokensUsed = countWords shortOutput,
                 s_violations = violations result\<rparr>
     in (ScoreOk (score result) (violations result), team_update_score db1 team_t (0 + score result)))"
    by (rule scoreChallenge_ok)
       (simp_all add: scoreBody0_def shortOutput_nonempty seed_first team_t_facts)
  then show ?thesis
    by (simp add: scoreBody0_result Let_def team_update_score_def team_t_facts PASSING_THRESHOLD_def)
qed



section \<open>Round 2 scores the prompt alone\<close>

text \<open>
  C6. In round 2 the result of the scoring policy is that of the reverse-engineering
  evaluator on the prompt, its score multiplied by 1.5 and rounded to two decimals, with
  the same violations. Neither the generated output nor the constraints enter: two
  submissions with the same prompt receive the same result, and the route answers them
  alike and leaves the same team totals.
\<close>

theorem C6_round2_scores_prompt_only:
  "scoreSubmission prompt out1 2 cs1 = scoreSubmission prompt out2 2 cs2 \<and>
   score (scoreSubmission prompt out1 2 cs1) = round2 (score (evaluateReverseEngineering prompt) * (3 / 2)) \<and>
   violations (scoreSubmission prompt out1 2 cs1) = violations (evaluateReverseEngineering prompt) \<and>
   fst (submitPrompt db (body\<lparr>b_round := Some 2\<rparr>) (Some out1)) =
   fst (submitPrompt db (body\<lparr>b_round := Some 2\<rparr>) (Some out2)) \<and>
   teams (snd (submitPrompt db (body\<lparr>b_round := Some 2\<rparr>) (Some out1))) =
   teams (snd (submitPrompt db (body\<lparr>b_round := Some 2\<rparr>) (Some out2)))"
proof -
  have a: "scoreSubmission prompt o1 2 c1 =
      (evaluateReverseEngineering prompt)\<lparr>score := round2 (score (evaluateReverseEngineering prompt) * (3 / 2))\<rparr>"
    for o1 c1 prompt
    by (simp add: scoreSubmission_def roundMultiplier_def Let_def)
  have "fst (submitPrompt db (body\<lparr>b_round := Some 2\<rparr>) (Some out1)) =
        fst (submitPrompt db (body\<lparr>b_round := Some 2\<rparr>) (Some out2)) \<and>
        teams (snd (submitPrompt db (body\<lparr>b_round := Some 2\<rparr>) (Some out1))) =
        teams (snd (submitPrompt db (body\<lparr>b_round := Some 2\<rparr>) (Some out2)))"
    by (simp add: submitPrompt_def roundOrDefault_def a Let_def submission_create_def
        team_update_score_def split: option.splits prod.splits)
  then show ?thesis by (simp add: a)
qed

lemma submitBody0_round: "submitBody0\<lparr>b_round := Some 2\<rparr> = submitBody0"
  by (simp add: submitBody0_def)

lemma fullAnswer_submit:
  "fst (submitPrompt db0 submitBody0 (Some (js ''a''))) = SubmitOk True 165"
proof -
  have "fullAnswer \<noteq> []"
    by (simp add: fullAnswer_def js_def)
  then have "submitPrompt db0 submitBody0 (Some (js ''a'')) =
    (let ev = scoreSubmission fullAnswer (js ''a'') (roundOrDefault (b_round submitBody0))
                (constraintsOrEmpty (b_constraints submitBody0));
         db1 = submission_create db0 \<lparr>s_teamId = team_t, s_round = b_round submitBody0,
                 s_challenge = b_challenge submitBody0, s_prompt = fullAnswer,
                 s_llmResponse = js ''a'', s_score = score ev,
                 s_tokensUsed = max 1 (countWords (js ''a'')),
                 s_violations = violations ev\<rparr>
     in if 60 \<le> score ev
        then (SubmitOk True (score ev), team_update_score db1 team_t (0 + score ev))
        else (SubmitOk False (score ev), db1))"
    by (intro submitPrompt_ok) (simp_all add: submitBody0_def team_t_facts)
  moreover have "score (scoreSubmission fullAnswer (js ''a'') (roundOrDefault (b_round submitBody0))
                (constraintsOrEmpty (b_constraints submitBody0))) = 165"
    by (simp add: submitBody0_def roundOrDefault_def scoreSubmission_def roundMultiplier_def
        fullAnswer_result round2_def math_round_def)
  ultimately show ?thesis
    by (simp add: Let_def)
qed

theorem C6_round2_scores_prompt_only_witness:
  "present (b_teamId submitBody0) \<and> present (b_prompt submitBody0) \<and>
   fst (submitPrompt db0 submitBody0 (Some (js ''a''))) = SubmitOk True 165 \<and>
   fst (submitPrompt db0 submitBody0 (Some (js ''b c''))) = SubmitOk True 165"
  using C6_round2_scores_prompt_only
    [of fullAnswer "js ''a''" noConstraints "js ''b c''" noConstraints db0 submitBody0]
    fullAnswer_submit
  by (simp add: submitBody0_round) (simp add: submitBody0_def present_def team_t_facts fullAnswer_def js_def)

end
